theory Spec2Isabelle
  imports Main "HOL-Library.AList" "HOL-Library.Sublist"
begin

section \<open>Python values and exceptions\<close>

text \<open>
  The module \<^verbatim>\<open>service/models.py\<close> handles JSON-like values: request bodies,
  stored documents and credential bindings. A dict is an association list with string
  keys, in insertion order; JSON numbers are modelled as integers.
\<close>

datatype pyval =
    PNone
  | PBool bool
  | PInt int
  | PStr string
  | PList "pyval list"
  | PDict "(string \<times> pyval) list"

type_synonym pydict = "(string \<times> pyval) list"

text \<open>
  The exception classes that occur: the two the module defines (\<open>DataValidationError\<close>,
  \<open>DatabaseConnectionError\<close>, each with its message), the two it imports from
  \<^verbatim>\<open>requests\<close>, the three that the \<^verbatim>\<open>cloudant\<close> client library raises by itself, and the
  built-in ones that subscripting, membership, iteration, method lookup and \<^verbatim>\<open>time.sleep\<close>
  raise.
\<close>

datatype error =
    HTTPError
  | ConnectionError
  | KeyError
  | TypeError
  | IndexError
  | AttributeError
  | ValueError
  | OverflowError
  | JSONDecodeError
  | CloudantArgumentError
  | CloudantDocumentException
  | CloudantDatabaseException
  | DataValidationError string
  | DatabaseConnectionError string

text \<open>Truth value of an object, as \<^verbatim>\<open>if x:\<close> and \<^verbatim>\<open>not x\<close> test it.\<close>

fun truthy :: "pyval \<Rightarrow> bool" where
  "truthy PNone = False"
| "truthy (PBool b) = b"
| "truthy (PInt i) = (i \<noteq> 0)"
| "truthy (PStr s) = (s \<noteq> [])"
| "truthy (PList xs) = (xs \<noteq> [])"
| "truthy (PDict kvs) = (kvs \<noteq> [])"

text \<open>\<^verbatim>\<open>obj[key]\<close> for a string key: only a dict accepts it; a missing key is a KeyError.\<close>

fun subscript_str :: "pyval \<Rightarrow> string \<Rightarrow> error + pyval" where
  "subscript_str (PDict kvs) k = (case map_of kvs k of None \<Rightarrow> Inl KeyError | Some v \<Rightarrow> Inr v)"
| "subscript_str _ k = Inl TypeError"

text \<open>
  \<^verbatim>\<open>key in obj\<close> for a string key: key membership in a dict, element membership in a
  list, substring in a string, TypeError for an object that is not a container.
\<close>

fun contains_str :: "string \<Rightarrow> pyval \<Rightarrow> error + bool" where
  "contains_str k (PDict kvs) = Inr (map_of kvs k \<noteq> None)"
| "contains_str k (PList xs) = Inr (PStr k \<in> set xs)"
| "contains_str k (PStr s) = Inr (sublist k s)"
| "contains_str k _ = Inl TypeError"

text \<open>\<^verbatim>\<open>d[key] = value\<close> on a dict: replaces in place or appends.\<close>

definition dict_set :: "pydict \<Rightarrow> string \<Rightarrow> pyval \<Rightarrow> pydict" where
  "dict_set d k v = AList.update k v d"

section \<open>The record class \<open>Base\<close>\<close>

text \<open>
  An instance has the attributes \<^verbatim>\<open>id\<close> and \<^verbatim>\<open>name\<close>; the constructor sets
  \<^verbatim>\<open>id = None\<close> and \<^verbatim>\<open>name\<close> to its argument (default \<^verbatim>\<open>None\<close>).
\<close>

record base =
  id_attr :: pyval
  name :: pyval

definition Base :: "pyval \<Rightarrow> base" where
  "Base nm = \<lparr>id_attr = PNone, name = nm\<rparr>"

text \<open>
  \<^verbatim>\<open>
  def serialize(self) -> dict:
      data = {"name": self.name}
      if self.id:
          data["_id"] = self.id
      return data
  \<close>
\<close>

definition serialize :: "base \<Rightarrow> pydict" where
  "serialize self =
     (let data = [(''name'', name self)]
      in if truthy (id_attr self) then dict_set data ''_id'' (id_attr self) else data)"

text \<open>
  \<^verbatim>\<open>
  def deserialize(self, data: dict) -> None:
      try:
          self.name = data["name"]
      except KeyError as error:
          raise DataValidationError("Invalid record: missing " + error.args[0]) from error
      except TypeError as error:
          raise DataValidationError("Invalid record: body of request contained bad or no data") from error
      if not self.id and "_id" in data:
          self.id = data["_id"]
      return self
  \<close>
  The result is the raised exception or the mutated instance. The only statement
  that can raise evaluates \<^verbatim>\<open>data["name"]\<close> before anything is assigned, so a raise leaves
  the instance as it was. The info-level log line has no effect on the result.
\<close>

definition deserialize :: "base \<Rightarrow> pyval \<Rightarrow> error + base" where
  "deserialize self data =
     (case subscript_str data ''name'' of
        Inl KeyError \<Rightarrow> Inl (DataValidationError (''Invalid record: missing '' @ ''name''))
      | Inl TypeError \<Rightarrow>
          Inl (DataValidationError ''Invalid record: body of request contained bad or no data'')
      | Inl e \<Rightarrow> Inl e
      | Inr n \<Rightarrow>
          (let self1 = self\<lparr>name := n\<rparr>
           in if truthy (id_attr self1) then Inr self1
              else (case contains_str ''_id'' data of
                      Inl e \<Rightarrow> Inl e
                    | Inr False \<Rightarrow> Inr self1
                    | Inr True \<Rightarrow>
                        (case subscript_str data ''_id'' of
                           Inl e \<Rightarrow> Inl e
                         | Inr i \<Rightarrow> Inr (self1\<lparr>id_attr := i\<rparr>)))))"

section \<open>The document store, the client library and the logger\<close>

text \<open>
  \<^verbatim>\<open>Base.database\<close> is a \<^verbatim>\<open>CloudantDatabase\<close> of the \<^verbatim>\<open>cloudant\<close> client library: a Python
  dict of the \<^verbatim>\<open>Document\<close> objects the client holds, in front of the remote service. Both
  sides are state. \<open>docs\<close> is what the service has under an id (each id once): its
  documents, and under a path that it serves by itself, such as \<^verbatim>\<open>_all_docs\<close>, whatever
  it answers there. \<open>cache\<close> are the fields of the document objects the client holds, by
  the key they are held under.
  Every request to the service takes the next entry of the fault schedule \<open>faults\<close> and
  either raises the transport error listed there or is answered; \<open>calls\<close> counts the
  requests. What the service decides by itself is a parameter of the world: the ids and
  revision tokens it hands out (\<open>fresh_id\<close>, \<open>fresh_rev\<close>), the document bodies it accepts
  (\<open>accepts\<close>), the order in which its primary index lists ids (\<open>collates\<close>), the documents
  a selector matches, if it accepts the selector (\<open>selects\<close>), and the design document it
  writes for an index on a field, if it accepts the definition (\<open>index_document\<close>).
  \<open>warnings\<close> is what \<^verbatim>\<open>Base.logger\<close> received at warning level (info-level lines are not
  recorded), \<open>slept\<close> the arguments of the calls of \<^verbatim>\<open>time.sleep\<close> that returned.

  An association list stands for a dict: what the module observes of it is its \<open>map_of\<close>
  and whether it is empty. \<^verbatim>\<open>Base.database\<close> is taken to be bound, as it is after
  \<^verbatim>\<open>init_db\<close> has returned. The library's class \<^verbatim>\<open>DesignDocument\<close>, which it uses for ids
  that start with \<^verbatim>\<open>_design/\<close>, is handled as \<^verbatim>\<open>Document\<close> is: the fields it adds to such an
  object (\<^verbatim>\<open>views\<close>, \<^verbatim>\<open>indexes\<close>, \<^verbatim>\<open>lists\<close>, \<^verbatim>\<open>shows\<close>) are left out.
\<close>

datatype transport_fault = Transient | Unreachable

fun raised :: "transport_fault \<Rightarrow> error" where
  "raised Transient = HTTPError"
| "raised Unreachable = ConnectionError"

record world =
  docs :: "(string \<times> pydict) list"
  cache :: "(string \<times> pydict) list"
  faults :: "nat \<Rightarrow> transport_fault option"
  calls :: nat
  fresh_id :: "nat \<Rightarrow> string"
  fresh_rev :: "nat \<Rightarrow> pyval"
  accepts :: "pydict \<Rightarrow> bool"
  collates :: "string \<Rightarrow> string \<Rightarrow> bool"
  selects :: "pydict \<Rightarrow> (pydict \<Rightarrow> bool) option"
  index_document :: "string \<Rightarrow> string \<Rightarrow> (string \<times> pydict) option"
  warnings :: "string list"
  slept :: "int list"

text \<open>
  A document object: the id it is bound to (empty when it has none yet) and its fields
  (it is a dict). The library keeps the id in the field \<^verbatim>\<open>_id\<close> and holds an object under
  that id; \<open>doc_key\<close> is that id.
\<close>

record document =
  doc_key :: string
  doc_fields :: pydict

definition request :: "world \<Rightarrow> transport_fault option \<times> world" where
  "request w = (faults w (calls w), w\<lparr>calls := Suc (calls w)\<rparr>)"

definition logger_warning :: "string \<Rightarrow> world \<Rightarrow> world" where
  "logger_warning msg w = w\<lparr>warnings := warnings w @ [msg]\<rparr>"

text \<open>
  \<^verbatim>\<open>Document(database, key)\<close> sets \<^verbatim>\<open>_id\<close> when the key is truthy. The client's dict
  holds objects, so whatever changes an object it holds changes what the dict holds:
  \<open>database_setitem\<close> writes the object's fields under its key.
\<close>

definition Document :: "string \<Rightarrow> document" where
  "Document key = \<lparr>doc_key = key, doc_fields = (if key = [] then [] else [(''_id'', PStr key)])\<rparr>"

definition database_setitem :: "world \<Rightarrow> document \<Rightarrow> world" where
  "database_setitem w d = w\<lparr>cache := AList.update (doc_key d) (doc_fields d) (cache w)\<rparr>"

text \<open>The JSON the service sends for a stored document: its fields, with its id.\<close>

definition document_json :: "string \<Rightarrow> pydict \<Rightarrow> pydict" where
  "document_json key stored = dict_set stored ''_id'' (PStr key)"

text \<open>
  \<^verbatim>\<open>document.exists()\<close>: false without a request for an object with no id, else a
  \<^verbatim>\<open>HEAD\<close> request; a status other than 200 and 404 is raised.
\<close>

definition document_exists :: "world \<Rightarrow> document \<Rightarrow> (error + bool) \<times> world" where
  "document_exists w d =
     (if doc_key d = [] then (Inr False, w)
      else (case request w of
              (Some f, w1) \<Rightarrow> (Inl (raised f), w1)
            | (None, w1) \<Rightarrow> (Inr (map_of (docs w1) (doc_key d) \<noteq> None), w1)))"

text \<open>\<^verbatim>\<open>document.fetch()\<close>: a \<^verbatim>\<open>GET\<close> request; the answer replaces the object's fields.\<close>

definition document_fetch :: "world \<Rightarrow> document \<Rightarrow> (error + document) \<times> world" where
  "document_fetch w d =
     (if doc_key d = [] then (Inl CloudantDocumentException, w)
      else (case request w of
              (Some f, w1) \<Rightarrow> (Inl (raised f), w1)
            | (None, w1) \<Rightarrow>
                (case map_of (docs w1) (doc_key d) of
                   None \<Rightarrow> (Inl HTTPError, w1)
                 | Some stored \<Rightarrow>
                     (Inr (d\<lparr>doc_fields := document_json (doc_key d) stored\<rparr>), w1))))"

text \<open>
  \<^verbatim>\<open>document.create()\<close>: a \<^verbatim>\<open>POST\<close> request with the fields, less a \<^verbatim>\<open>_rev\<close> that is not
  \<^verbatim>\<open>None\<close>. The service refuses a body it does not accept (status 400) and an id it
  already holds (status 409, told apart here because \<^verbatim>\<open>create_document\<close> tells it apart);
  otherwise it stores the document under the id given or a new one, with a new revision,
  and the object takes both.
\<close>

datatype 'a posted = Raised error | Conflict | Created 'a

definition document_create :: "world \<Rightarrow> document \<Rightarrow> document posted \<times> world" where
  "document_create w d =
     (let body = (if map_of (doc_fields d) ''_rev'' = Some PNone then doc_fields d
                  else AList.delete ''_rev'' (doc_fields d))
      in case request w of
           (Some f, w1) \<Rightarrow> (Raised (raised f), w1)
         | (None, w1) \<Rightarrow>
             if \<not> accepts w1 body then (Raised HTTPError, w1)
             else if doc_key d \<noteq> [] \<and> map_of (docs w1) (doc_key d) \<noteq> None then (Conflict, w1)
             else (let key = (if doc_key d = [] then fresh_id w (calls w) else doc_key d);
                       flds = dict_set (dict_set (doc_fields d) ''_id'' (PStr key))
                                  ''_rev'' (fresh_rev w (calls w))
                   in (Created \<lparr>doc_key = key, doc_fields = flds\<rparr>,
                       w1\<lparr>docs := AList.update key flds (docs w1)\<rparr>)))"

text \<open>\<^verbatim>\<open>dict.update(data)\<close>.\<close>

definition dict_update :: "pydict \<Rightarrow> pydict \<Rightarrow> pydict" where
  "dict_update d data = fold (\<lambda>(k, v) fs. dict_set fs k v) data d"

text \<open>
  \<^verbatim>\<open>database.create_document(data)\<close>:
  \<^verbatim>\<open>
  docid = data.get('_id', None)
  if docid and docid.startswith('_design/'): doc = DesignDocument(self, docid)
  else: doc = Document(self, docid)
  doc.update(data)
  try:
      doc.create()
  except HTTPError as error:
      if error.response.status_code == 409:
          if throw_on_exists: raise CloudantDatabaseException(409, docid)
      else:
          raise
  super(CouchDatabase, self).__setitem__(doc['_id'], doc)
  return doc
  \<close>
  A truthy \<^verbatim>\<open>_id\<close> that is no string has no \<^verbatim>\<open>startswith\<close>. For an id the service already
  holds, the stored document stays and the new object, which has no revision, is the
  one the client holds from then on.
\<close>

definition create_document :: "world \<Rightarrow> pydict \<Rightarrow> (error + document) \<times> world" where
  "create_document w data =
     (case (case map_of data ''_id'' of
              None \<Rightarrow> Inr []
            | Some docid \<Rightarrow>
                if truthy docid
                then (case docid of PStr s \<Rightarrow> Inr s | _ \<Rightarrow> Inl AttributeError)
                else Inr []) of
        Inl e \<Rightarrow> (Inl e, w)
      | Inr key \<Rightarrow>
          (let doc = (Document key)\<lparr>doc_fields := dict_update (doc_fields (Document key)) data\<rparr>
           in case document_create w doc of
                (Raised e, w1) \<Rightarrow> (Inl e, w1)
              | (Conflict, w1) \<Rightarrow> (Inr doc, database_setitem w1 doc)
              | (Created doc1, w1) \<Rightarrow> (Inr doc1, database_setitem w1 doc1)))"

text \<open>
  \<^verbatim>\<open>database[key]\<close>:
  \<^verbatim>\<open>
  if key in list(self.keys()):
      return super(CouchDatabase, self).__getitem__(key)
  if key.startswith('_design/'): doc = DesignDocument(self, key)
  else: doc = Document(self, key)
  if doc.exists():
      doc.fetch()
      super(CouchDatabase, self).__setitem__(key, doc)
      return doc
  raise KeyError(key)
  \<close>
  A document the client holds is returned without a request, whatever has become of it
  in the service. A key that is no string (\<^verbatim>\<open>None\<close>, the id of a new record) is held by
  nobody and has no \<^verbatim>\<open>startswith\<close>: AttributeError, before any request.
\<close>

definition database_getitem :: "world \<Rightarrow> pyval \<Rightarrow> (error + document) \<times> world" where
  "database_getitem w key =
     (case key of
        PStr s \<Rightarrow>
          (case map_of (cache w) s of
             Some flds \<Rightarrow> (Inr \<lparr>doc_key = s, doc_fields = flds\<rparr>, w)
           | None \<Rightarrow>
               (case document_exists w (Document s) of
                  (Inl e, w1) \<Rightarrow> (Inl e, w1)
                | (Inr False, w1) \<Rightarrow> (Inl KeyError, w1)
                | (Inr True, w1) \<Rightarrow>
                    (case document_fetch w1 (Document s) of
                       (Inl e, w2) \<Rightarrow> (Inl e, w2)
                     | (Inr doc, w2) \<Rightarrow> (Inr doc, database_setitem w2 doc))))
      | _ \<Rightarrow> (Inl AttributeError, w))"

text \<open>
  \<^verbatim>\<open>document.update(data)\<close>: the dict method, on an object that the client holds.
\<close>

definition document_update :: "world \<Rightarrow> document \<Rightarrow> pydict \<Rightarrow> document \<times> world" where
  "document_update w d data =
     (let d1 = d\<lparr>doc_fields := dict_update (doc_fields d) data\<rparr> in (d1, database_setitem w d1))"

text \<open>
  \<^verbatim>\<open>document.save()\<close>:
  \<^verbatim>\<open>
  if not self.exists():
      self.create()
      return
  put_resp = self.r_session.put(self.document_url, data=self.json(), headers=headers)
  put_resp.raise_for_status()
  data = response_to_json_dict(put_resp)
  super(Document, self).__setitem__('_rev', data['rev'])
  \<close>
  The service takes a \<^verbatim>\<open>PUT\<close> only with the revision it holds (status 409 otherwise).
\<close>

definition document_save :: "world \<Rightarrow> document \<Rightarrow> (error + unit) \<times> world" where
  "document_save w d =
     (case document_exists w d of
        (Inl e, w1) \<Rightarrow> (Inl e, w1)
      | (Inr False, w1) \<Rightarrow>
          (case document_create w1 d of
             (Raised e, w2) \<Rightarrow> (Inl e, w2)
           | (Conflict, w2) \<Rightarrow> (Inl HTTPError, w2)
           | (Created d1, w2) \<Rightarrow> (Inr (), database_setitem w2 d1))
      | (Inr True, w1) \<Rightarrow>
          (case request w1 of
             (Some f, w2) \<Rightarrow> (Inl (raised f), w2)
           | (None, w2) \<Rightarrow>
               (case map_of (docs w2) (doc_key d) of
                  None \<Rightarrow> (Inl HTTPError, w2)
                | Some stored \<Rightarrow>
                    if accepts w2 (doc_fields d) \<and> map_of (doc_fields d) ''_rev'' \<noteq> None
                       \<and> map_of (doc_fields d) ''_rev'' = map_of stored ''_rev''
                    then (let d1 = d\<lparr>doc_fields := dict_set (doc_fields d) ''_rev''
                                                      (fresh_rev w1 (calls w1))\<rparr>
                          in (Inr (), database_setitem
                                        (w2\<lparr>docs := AList.update (doc_key d) (doc_fields d1) (docs w2)\<rparr>)
                                        d1))
                    else (Inl HTTPError, w2))))"

text \<open>
  \<^verbatim>\<open>document.delete()\<close>:
  \<^verbatim>\<open>
  if not self.get("_rev"):
      raise CloudantDocumentException(103)
  del_resp = self.r_session.delete(self.document_url, params={"rev": self["_rev"]})
  del_resp.raise_for_status()
  _id = self['_id']
  self.clear()
  self['_id'] = _id
  \<close>
  The service removes the document; the object stays with the client as a shell that has
  an \<^verbatim>\<open>_id\<close> and nothing else.
\<close>

definition document_delete :: "world \<Rightarrow> document \<Rightarrow> (error + unit) \<times> world" where
  "document_delete w d =
     (if \<not> (case map_of (doc_fields d) ''_rev'' of None \<Rightarrow> False | Some r \<Rightarrow> truthy r)
      then (Inl CloudantDocumentException, w)
      else (case request w of
              (Some f, w1) \<Rightarrow> (Inl (raised f), w1)
            | (None, w1) \<Rightarrow>
                (case map_of (docs w1) (doc_key d) of
                   None \<Rightarrow> (Inl HTTPError, w1)
                 | Some stored \<Rightarrow>
                     if map_of stored ''_rev'' = map_of (doc_fields d) ''_rev''
                     then (Inr (), database_setitem
                                     (w1\<lparr>docs := AList.delete (doc_key d) (docs w1)\<rparr>)
                                     (Document (doc_key d)))
                     else (Inl HTTPError, w1))))"

text \<open>
  Iterating over the database, \<^verbatim>\<open>for document in cls.database\<close>: the library asks the
  primary index for the documents in pages, one request for each page of 100, with one
  row more that only tells it whether to go on; it wraps each row in a document object,
  holds the object and yields it. The rows are the documents of the service in the order
  of their ids, design documents among them. \<open>database_iter body acc\<close> is the loop with the
  statements \<open>body\<close> and the loop-carried value \<open>acc\<close>. The pages after the first are taken
  from the rows of the first answer: the loops of this module change no document that
  is still to come.
\<close>

fun insert_by :: "('a \<Rightarrow> 'a \<Rightarrow> bool) \<Rightarrow> 'a \<Rightarrow> 'a list \<Rightarrow> 'a list" where
  "insert_by before x [] = [x]"
| "insert_by before x (y # ys) = (if before x y then x # y # ys else y # insert_by before x ys)"

definition all_docs :: "world \<Rightarrow> document list" where
  "all_docs w =
     map (\<lambda>(key, stored). \<lparr>doc_key = key, doc_fields = document_json key stored\<rparr>)
         (foldr (insert_by (\<lambda>a b. collates w (fst a) (fst b))) (docs w) [])"

definition fetch_limit :: nat where
  "fetch_limit = 100"

fun for_each ::
  "(document \<Rightarrow> 'a \<Rightarrow> world \<Rightarrow> (error + 'a) \<times> world) \<Rightarrow> document list \<Rightarrow> 'a \<Rightarrow> world
     \<Rightarrow> (error + 'a) \<times> world" where
  "for_each body [] acc w = (Inr acc, w)"
| "for_each body (d # ds) acc w =
     (case body d acc (database_setitem w d) of
        (Inl e, w1) \<Rightarrow> (Inl e, w1)
      | (Inr acc1, w1) \<Rightarrow> for_each body ds acc1 w1)"

function database_pages ::
  "(document \<Rightarrow> 'a \<Rightarrow> world \<Rightarrow> (error + 'a) \<times> world) \<Rightarrow> document list \<Rightarrow> 'a \<Rightarrow> world
     \<Rightarrow> (error + 'a) \<times> world" where
  "database_pages body rows acc w =
     (case for_each body (take fetch_limit rows) acc w of
        (Inl e, w1) \<Rightarrow> (Inl e, w1)
      | (Inr acc1, w1) \<Rightarrow>
          if length rows \<le> fetch_limit then (Inr acc1, w1)
          else (case request w1 of
                  (Some f, w2) \<Rightarrow> (Inl (raised f), w2)
                | (None, w2) \<Rightarrow> database_pages body (drop fetch_limit rows) acc1 w2))"
  by pat_completeness auto
termination
  by (relation "measure (\<lambda>(body, rows, acc, w). length rows)") (auto simp: fetch_limit_def)

definition database_iter ::
  "(document \<Rightarrow> 'a \<Rightarrow> world \<Rightarrow> (error + 'a) \<times> world) \<Rightarrow> 'a \<Rightarrow> world \<Rightarrow> (error + 'a) \<times> world" where
  "database_iter body acc w =
     (case request w of
        (Some f, w1) \<Rightarrow> (Inl (raised f), w1)
      | (None, w1) \<Rightarrow> database_pages body (all_docs w1) acc w1)"

text \<open>
  \<^verbatim>\<open>for doc in Query(cls.database, selector=kwargs).result\<close>: the library refuses an empty
  selector before any request (CloudantArgumentError); otherwise it posts the selector
  and yields the documents of the answer, plain dicts that nobody holds, then asks for
  the next page, until a page comes back empty. The service answers with the documents
  that match, design documents apart, or refuses the selector (status 400).
\<close>

fun for_each_row ::
  "(pydict \<Rightarrow> 'a \<Rightarrow> error + 'a) \<Rightarrow> pydict list \<Rightarrow> 'a \<Rightarrow> error + 'a" where
  "for_each_row body [] acc = Inr acc"
| "for_each_row body (doc # ds) acc =
     (case body doc acc of
        Inl e \<Rightarrow> Inl e
      | Inr acc1 \<Rightarrow> for_each_row body ds acc1)"

definition page_size :: nat where
  "page_size = 100"

function query_pages ::
  "(pydict \<Rightarrow> 'a \<Rightarrow> error + 'a) \<Rightarrow> pydict list \<Rightarrow> 'a \<Rightarrow> world \<Rightarrow> (error + 'a) \<times> world" where
  "query_pages body rows acc w =
     (if rows = [] then (Inr acc, w)
      else (case for_each_row body (take page_size rows) acc of
              Inl e \<Rightarrow> (Inl e, w)
            | Inr acc1 \<Rightarrow>
                (case request w of
                   (Some f, w1) \<Rightarrow> (Inl (raised f), w1)
                 | (None, w1) \<Rightarrow> query_pages body (drop page_size rows) acc1 w1)))"
  by pat_completeness auto
termination
  by (relation "measure (\<lambda>(body, rows, acc, w). length rows)") (auto simp: page_size_def)

definition query_result ::
  "(pydict \<Rightarrow> 'a \<Rightarrow> error + 'a) \<Rightarrow> pydict \<Rightarrow> 'a \<Rightarrow> world \<Rightarrow> (error + 'a) \<times> world" where
  "query_result body selector acc w =
     (if selector = [] then (Inl CloudantArgumentError, w)
      else (case request w of
              (Some f, w1) \<Rightarrow> (Inl (raised f), w1)
            | (None, w1) \<Rightarrow>
                (case selects w1 selector of
                   None \<Rightarrow> (Inl HTTPError, w1)
                 | Some matches \<Rightarrow>
                     query_pages body
                       (filter matches
                          (map doc_fields
                             (filter (\<lambda>d. \<not> prefix ''_design/'' (doc_key d)) (all_docs w1))))
                       acc w1)))"

text \<open>
  \<^verbatim>\<open>database.create_query_index(index_name=field_name, fields=[{field_name: order}])\<close>:
  one \<^verbatim>\<open>POST\<close> request. The service refuses the definition (status 400) or keeps the
  index in a design document, which it writes unless it is there already.
\<close>

definition database_create_query_index ::
  "world \<Rightarrow> string \<Rightarrow> string \<Rightarrow> (error + unit) \<times> world" where
  "database_create_query_index w field_name order =
     (case request w of
        (Some f, w1) \<Rightarrow> (Inl (raised f), w1)
      | (None, w1) \<Rightarrow>
          (case index_document w1 field_name order of
             None \<Rightarrow> (Inl HTTPError, w1)
           | Some (key, flds) \<Rightarrow>
               (Inr (), if map_of (docs w1) key = None
                        then w1\<lparr>docs := AList.update key flds (docs w1)\<rparr>
                        else w1)))"

section \<open>The retry decorator\<close>

text \<open>
  Every data operation is decorated with
  \<^verbatim>\<open>@retry(HTTPError, delay=RETRY_DELAY, backoff=RETRY_BACKOFF, tries=RETRY_COUNT, logger=logger)\<close>
  from the \<^verbatim>\<open>retry\<close> package. The three constants are read from the environment when the
  module is imported:
  \<^verbatim>\<open>
  RETRY_COUNT = int(os.getenv("RETRY_COUNT", "10"))
  RETRY_DELAY = int(os.getenv("RETRY_DELAY", "1"))
  RETRY_BACKOFF = int(os.getenv("RETRY_BACKOFF", "2"))
  \<close>
  so they are any three integers; the decorated operations below take them as their first
  argument.
\<close>

record config =
  RETRY_COUNT :: int
  RETRY_DELAY :: int
  RETRY_BACKOFF :: int

definition default_config :: config where
  "default_config = \<lparr>RETRY_COUNT = 10, RETRY_DELAY = 1, RETRY_BACKOFF = 2\<rparr>"

text \<open>
  \<^verbatim>\<open>time.sleep(secs)\<close> converts its argument to the clock's 64-bit count of nanoseconds
  and raises OverflowError when it does not fit; it raises ValueError for a negative
  argument; otherwise it returns after that time.
\<close>

definition sleep_max :: int where
  "sleep_max = 9223372036"

definition time_sleep :: "int \<Rightarrow> world \<Rightarrow> error + world" where
  "time_sleep secs w =
     (if secs < - sleep_max \<or> sleep_max < secs then Inl OverflowError
      else if secs < 0 then Inl ValueError
      else Inr (w\<lparr>slept := slept w @ [secs]\<rparr>))"

text \<open>
  The waits between \<open>RETRY_COUNT\<close> attempts, as the loop below computes them, and the
  arguments that \<^verbatim>\<open>time.sleep\<close> accepts.
\<close>

definition waits :: "config \<Rightarrow> int list" where
  "waits cfg =
     map (\<lambda>i. RETRY_DELAY cfg * RETRY_BACKOFF cfg ^ i) [0..<nat (RETRY_COUNT cfg - 1)]"

definition sleepable :: "int \<Rightarrow> bool" where
  "sleepable secs = (0 \<le> secs \<and> secs \<le> sleep_max)"

text \<open>
  The loop of the decorator (\<^verbatim>\<open>jitter\<close> is 0 and \<^verbatim>\<open>max_delay\<close> is \<^verbatim>\<open>None\<close>, their defaults):
  \<^verbatim>\<open>
  _tries, _delay = tries, delay
  while _tries:
      try:
          return f()
      except exceptions as e:
          _tries -= 1
          if not _tries:
              raise
          logger.warning('%s, retrying in %s seconds...', e, _delay)
          time.sleep(_delay)
          _delay *= backoff
  \<close>
  With \<open>tries = 0\<close> the loop body never runs and the call returns \<^verbatim>\<open>None\<close> (the argument
  \<open>none\<close> below is that value at the result type); with a negative \<open>tries\<close> the counter
  never reaches zero, so the loop may run forever: the function is partial, and no result
  is the value \<open>None\<close> of the option type. An exception of \<^verbatim>\<open>time.sleep\<close> is raised inside the
  handler and leaves the loop.
\<close>

partial_function (option) retry_internal ::
  "('s \<Rightarrow> ((error + 'a) \<times> 's) option) \<Rightarrow> 'a \<Rightarrow> ('s \<Rightarrow> 's) \<Rightarrow> (int \<Rightarrow> 's \<Rightarrow> error + 's)
     \<Rightarrow> int \<Rightarrow> int \<Rightarrow> int \<Rightarrow> 's \<Rightarrow> ((error + 'a) \<times> 's) option"
where
  "retry_internal f none logger sleep tries delay backoff s =
     (if tries = 0 then Some (Inr none, s)
      else (case f s of
              None \<Rightarrow> None
            | Some (Inr v, s1) \<Rightarrow> Some (Inr v, s1)
            | Some (Inl e, s1) \<Rightarrow>
                if e = HTTPError
                then (if tries - 1 = 0 then Some (Inl e, s1)
                      else (case sleep delay (logger s1) of
                              Inl e1 \<Rightarrow> Some (Inl e1, logger s1)
                            | Inr s2 \<Rightarrow>
                                retry_internal f none logger sleep (tries - 1)
                                  (delay * backoff) backoff s2))
                else Some (Inl e, s1)))"

definition retry_warning :: "world \<Rightarrow> world" where
  "retry_warning = logger_warning ''retrying''"

text \<open>The log line and the sleep, for a method whose state is the instance and the world.\<close>

definition sleep_self :: "int \<Rightarrow> base \<times> world \<Rightarrow> error + base \<times> world" where
  "sleep_self secs s =
     (case time_sleep secs (snd s) of Inl e \<Rightarrow> Inl e | Inr w \<Rightarrow> Inr (fst s, w))"

definition retry ::
  "config \<Rightarrow> (world \<Rightarrow> ((error + 'a) \<times> world) option) \<Rightarrow> 'a \<Rightarrow> world
     \<Rightarrow> ((error + 'a) \<times> world) option" where
  "retry cfg f none =
     retry_internal f none retry_warning time_sleep
       (RETRY_COUNT cfg) (RETRY_DELAY cfg) (RETRY_BACKOFF cfg)"

definition retry_self ::
  "config \<Rightarrow> (base \<times> world \<Rightarrow> ((error + 'a) \<times> base \<times> world) option) \<Rightarrow> 'a \<Rightarrow> base \<times> world
     \<Rightarrow> ((error + 'a) \<times> base \<times> world) option" where
  "retry_self cfg f none =
     retry_internal f none (apsnd retry_warning) sleep_self
       (RETRY_COUNT cfg) (RETRY_DELAY cfg) (RETRY_BACKOFF cfg)"

section \<open>The data operations\<close>

text \<open>
  Each operation is given twice: its body as written (\<open>_body\<close>), a total function on the
  state it touches, and the decorated method that callers reach. An instance method runs
  on the instance and the world and returns both, since it may assign to \<^verbatim>\<open>self\<close>; a
  class method runs on the world.
  \<^verbatim>\<open>
  def create(self):
      if self.name is None:  # name is the only required field
          raise DataValidationError("name attribute is not set")
      try:
          document = self.database.create_document(self.serialize())
      except HTTPError as err:
          Base.logger.warning("Create failed: %s", err)
          return
      if document.exists():
          self.id = document["_id"]
  \<close>
\<close>

fun create_body :: "base \<times> world \<Rightarrow> (error + unit) \<times> base \<times> world" where
  "create_body (self, w) =
     (if name self = PNone
      then (Inl (DataValidationError ''name attribute is not set''), self, w)
      else (case create_document w (serialize self) of
              (Inl e, w1) \<Rightarrow>
                if e = HTTPError then (Inr (), self, logger_warning ''Create failed'' w1)
                else (Inl e, self, w1)
            | (Inr document, w1) \<Rightarrow>
                (case document_exists w1 document of
                   (Inl e, w2) \<Rightarrow> (Inl e, self, w2)
                 | (Inr False, w2) \<Rightarrow> (Inr (), self, w2)
                 | (Inr True, w2) \<Rightarrow>
                     (case subscript_str (PDict (doc_fields document)) ''_id'' of
                        Inl e \<Rightarrow> (Inl e, self, w2)
                      | Inr i \<Rightarrow> (Inr (), self\<lparr>id_attr := i\<rparr>, w2)))))"

text \<open>
  \<^verbatim>\<open>
  def update(self):
      try:
          document = self.database[self.id]
      except KeyError:
          document = None
      if document:
          document.update(self.serialize())
          document.save()
  \<close>
  \<^verbatim>\<open>if document:\<close> is false for \<^verbatim>\<open>None\<close> and for a document with no fields.
\<close>

fun update_body :: "base \<times> world \<Rightarrow> (error + unit) \<times> base \<times> world" where
  "update_body (self, w) =
     (case database_getitem w (id_attr self) of
        (Inl e, w1) \<Rightarrow> if e = KeyError then (Inr (), self, w1) else (Inl e, self, w1)
      | (Inr document, w1) \<Rightarrow>
          if doc_fields document \<noteq> []
          then (case document_update w1 document (serialize self) of
                  (document1, w2) \<Rightarrow>
                    (case document_save w2 document1 of
                       (Inl e, w3) \<Rightarrow> (Inl e, self, w3)
                     | (Inr u, w3) \<Rightarrow> (Inr (), self, w3)))
          else (Inr (), self, w1))"

text \<open>
  \<^verbatim>\<open>
  def delete(self):
      try:
          document = self.database[self.id]
      except KeyError:
          document = None
      if document:
          document.delete()
  \<close>
\<close>

fun delete_body :: "base \<times> world \<Rightarrow> (error + unit) \<times> base \<times> world" where
  "delete_body (self, w) =
     (case database_getitem w (id_attr self) of
        (Inl e, w1) \<Rightarrow> if e = KeyError then (Inr (), self, w1) else (Inl e, self, w1)
      | (Inr document, w1) \<Rightarrow>
          if doc_fields document \<noteq> []
          then (case document_delete w1 document of
                  (Inl e, w2) \<Rightarrow> (Inl e, self, w2)
                | (Inr u, w2) \<Rightarrow> (Inr (), self, w2))
          else (Inr (), self, w1))"

text \<open>
  \<^verbatim>\<open>
  def find(cls, record_id: str):
      try:
          document = cls.database[record_id]
          _ = document["_rev"]
          return Base().deserialize(document)
      except KeyError:
          return None
  \<close>
  The three statements share one handler: a KeyError of any of them gives \<^verbatim>\<open>None\<close>.
\<close>

definition find_body :: "pyval \<Rightarrow> world \<Rightarrow> (error + base option) \<times> world" where
  "find_body record_id w =
     (case database_getitem w record_id of
        (Inl e, w1) \<Rightarrow> if e = KeyError then (Inr None, w1) else (Inl e, w1)
      | (Inr document, w1) \<Rightarrow>
          (case subscript_str (PDict (doc_fields document)) ''_rev'' of
             Inl e \<Rightarrow> if e = KeyError then (Inr None, w1) else (Inl e, w1)
           | Inr revision \<Rightarrow>
               (case deserialize (Base PNone) (PDict (doc_fields document)) of
                  Inl e \<Rightarrow> if e = KeyError then (Inr None, w1) else (Inl e, w1)
                | Inr record \<Rightarrow> (Inr (Some record), w1))))"

text \<open>
  \<^verbatim>\<open>
  def create_query_index(cls, field_name: str, order: str = "asc"):
      cls.database.create_query_index(index_name=field_name, fields=[{field_name: order}])

  def remove_all(cls):
      for document in cls.database:
          document.delete()

  def all(cls):
      results = []
      for doc in cls.database:
          record = Base().deserialize(doc)
          record.id = doc["_id"]
          results.append(record)
      return results

  def find_by(cls, **kwargs):
      query = Query(cls.database, selector=kwargs)
      results = []
      for doc in query.result:
          record = Base()
          record.deserialize(doc)
          results.append(record)
      return results
  \<close>
\<close>

definition create_query_index_body :: "string \<Rightarrow> string \<Rightarrow> world \<Rightarrow> (error + unit) \<times> world" where
  "create_query_index_body field_name order w = database_create_query_index w field_name order"

definition remove_all_step :: "document \<Rightarrow> unit \<Rightarrow> world \<Rightarrow> (error + unit) \<times> world" where
  "remove_all_step document u w = document_delete w document"

definition remove_all_body :: "world \<Rightarrow> (error + unit) \<times> world" where
  "remove_all_body w = database_iter remove_all_step () w"

definition all_step :: "document \<Rightarrow> base list \<Rightarrow> world \<Rightarrow> (error + base list) \<times> world" where
  "all_step doc results w =
     (case deserialize (Base PNone) (PDict (doc_fields doc)) of
        Inl e \<Rightarrow> (Inl e, w)
      | Inr record \<Rightarrow>
          (case subscript_str (PDict (doc_fields doc)) ''_id'' of
             Inl e \<Rightarrow> (Inl e, w)
           | Inr i \<Rightarrow> (Inr (results @ [record\<lparr>id_attr := i\<rparr>]), w)))"

definition all_body :: "world \<Rightarrow> (error + base list option) \<times> world" where
  "all_body w =
     (case database_iter all_step [] w of
        (Inl e, w1) \<Rightarrow> (Inl e, w1)
      | (Inr results, w1) \<Rightarrow> (Inr (Some results), w1))"

definition find_by_step :: "pydict \<Rightarrow> base list \<Rightarrow> error + base list" where
  "find_by_step doc results =
     (case deserialize (Base PNone) (PDict doc) of
        Inl e \<Rightarrow> Inl e
      | Inr record \<Rightarrow> Inr (results @ [record]))"

definition find_by_body :: "pydict \<Rightarrow> world \<Rightarrow> (error + base list option) \<times> world" where
  "find_by_body kwargs w =
     (case query_result find_by_step kwargs [] w of
        (Inl e, w1) \<Rightarrow> (Inl e, w1)
      | (Inr results, w1) \<Rightarrow> (Inr (Some results), w1))"

text \<open>
  The decorated methods. A method that returns a list returns \<^verbatim>\<open>None\<close> instead when the
  decorator never calls it, hence the option in its result.
\<close>

definition create :: "config \<Rightarrow> base \<times> world \<Rightarrow> ((error + unit) \<times> base \<times> world) option" where
  "create cfg = retry_self cfg (\<lambda>s. Some (create_body s)) ()"

definition update :: "config \<Rightarrow> base \<times> world \<Rightarrow> ((error + unit) \<times> base \<times> world) option" where
  "update cfg = retry_self cfg (\<lambda>s. Some (update_body s)) ()"

definition delete :: "config \<Rightarrow> base \<times> world \<Rightarrow> ((error + unit) \<times> base \<times> world) option" where
  "delete cfg = retry_self cfg (\<lambda>s. Some (delete_body s)) ()"

definition create_query_index ::
  "config \<Rightarrow> string \<Rightarrow> string \<Rightarrow> world \<Rightarrow> ((error + unit) \<times> world) option" where
  "create_query_index cfg field_name order =
     retry cfg (\<lambda>w. Some (create_query_index_body field_name order w)) ()"

definition remove_all :: "config \<Rightarrow> world \<Rightarrow> ((error + unit) \<times> world) option" where
  "remove_all cfg = retry cfg (\<lambda>w. Some (remove_all_body w)) ()"

definition all_records :: "config \<Rightarrow> world \<Rightarrow> ((error + base list option) \<times> world) option" where
  "all_records cfg = retry cfg (\<lambda>w. Some (all_body w)) None"

definition find_by :: "config \<Rightarrow> pydict \<Rightarrow> world \<Rightarrow> ((error + base list option) \<times> world) option" where
  "find_by cfg kwargs = retry cfg (\<lambda>w. Some (find_by_body kwargs w)) None"

definition find_record :: "config \<Rightarrow> pyval \<Rightarrow> world \<Rightarrow> ((error + base option) \<times> world) option" where
  "find_record cfg record_id = retry cfg (\<lambda>w. Some (find_body record_id w)) None"

text \<open>
  \<^verbatim>\<open>
  def find_by_name(cls, name: str):
      return cls.find_by(name=name)
  \<close>
  The body calls the decorated \<^verbatim>\<open>find_by\<close>, and is decorated itself.
\<close>

definition find_by_name_body ::
  "config \<Rightarrow> pyval \<Rightarrow> world \<Rightarrow> ((error + base list option) \<times> world) option" where
  "find_by_name_body cfg nm w = find_by cfg [(''name'', nm)] w"

definition find_by_name ::
  "config \<Rightarrow> pyval \<Rightarrow> world \<Rightarrow> ((error + base list option) \<times> world) option" where
  "find_by_name cfg nm = retry cfg (find_by_name_body cfg nm) None"

section \<open>Connection discovery and \<open>init_db\<close>\<close>

text \<open>
  \<^verbatim>\<open>os.environ\<close> is a map from variable names to strings. \<^verbatim>\<open>json.loads\<close> is the standard
  library's parser: the functions that call it take it as the argument \<open>loads\<close>, which
  returns the parsed value or raises. The module constants are read from the environment
  when the module is imported:
  \<^verbatim>\<open>
  ADMIN_PARTY = os.getenv("ADMIN_PARTY", "False").lower() == "true"
  CLOUDANT_HOST = os.getenv("CLOUDANT_HOST", "localhost")
  CLOUDANT_USERNAME = os.getenv("CLOUDANT_USERNAME", "admin")
  CLOUDANT_PASSWORD = os.getenv("CLOUDANT_PASSWORD", "pass")
  \<close>
\<close>

type_synonym environ = "string \<rightharpoonup> string"

definition getenv :: "environ \<Rightarrow> string \<Rightarrow> string \<Rightarrow> string" where
  "getenv env k dflt = (case env k of None \<Rightarrow> dflt | Some v \<Rightarrow> v)"

definition lower_char :: "char \<Rightarrow> char" where
  "lower_char c =
     (let n = (of_char c :: nat) in if 65 \<le> n \<and> n \<le> 90 then char_of (n + 32) else c)"

definition ADMIN_PARTY :: "environ \<Rightarrow> bool" where
  "ADMIN_PARTY env = (map lower_char (getenv env ''ADMIN_PARTY'' ''False'') = ''true'')"

definition CLOUDANT_HOST :: "environ \<Rightarrow> string" where
  "CLOUDANT_HOST env = getenv env ''CLOUDANT_HOST'' ''localhost''"

definition CLOUDANT_USERNAME :: "environ \<Rightarrow> string" where
  "CLOUDANT_USERNAME env = getenv env ''CLOUDANT_USERNAME'' ''admin''"

definition CLOUDANT_PASSWORD :: "environ \<Rightarrow> string" where
  "CLOUDANT_PASSWORD env = getenv env ''CLOUDANT_PASSWORD'' ''pass''"

text \<open>
  Iteration, \<^verbatim>\<open>obj[0]\<close> and \<^verbatim>\<open>service.startswith(prefix)\<close> on a parsed value. Iterating
  a dict gives its keys, a list its elements, a string its characters.
\<close>

fun iterate :: "pyval \<Rightarrow> error + pyval list" where
  "iterate (PDict kvs) = Inr (map (\<lambda>(k, v). PStr k) kvs)"
| "iterate (PList xs) = Inr xs"
| "iterate (PStr s) = Inr (map (\<lambda>c. PStr [c]) s)"
| "iterate _ = Inl TypeError"

fun subscript_zero :: "pyval \<Rightarrow> error + pyval" where
  "subscript_zero (PList xs) = (case xs of [] \<Rightarrow> Inl IndexError | x # _ \<Rightarrow> Inr x)"
| "subscript_zero (PStr s) = (case s of [] \<Rightarrow> Inl IndexError | c # _ \<Rightarrow> Inr (PStr [c]))"
| "subscript_zero (PDict kvs) = Inl KeyError"
| "subscript_zero _ = Inl TypeError"

fun startswith :: "pyval \<Rightarrow> string \<Rightarrow> error + bool" where
  "startswith (PStr s) p = Inr (prefix p s)"
| "startswith _ p = Inl AttributeError"

text \<open>
  \<^verbatim>\<open>
  def __check_for_cloud_foundry_binding():
      opts = {}
      if "VCAP_SERVICES" in os.environ:
          vcap_services = json.loads(os.environ["VCAP_SERVICES"])
          for service in vcap_services:
              if service.startswith("cloudantNoSQLDB"):
                  opts = vcap_services[service][0]["credentials"]
      return opts
  \<close>
\<close>

fun cloud_foundry_loop :: "pyval \<Rightarrow> pyval list \<Rightarrow> pyval \<Rightarrow> error + pyval" where
  "cloud_foundry_loop vcap_services [] opts = Inr opts"
| "cloud_foundry_loop vcap_services (service # rest) opts =
     (case startswith service ''cloudantNoSQLDB'' of
        Inl e \<Rightarrow> Inl e
      | Inr False \<Rightarrow> cloud_foundry_loop vcap_services rest opts
      | Inr True \<Rightarrow>
          (case (case service of PStr s \<Rightarrow> subscript_str vcap_services s | _ \<Rightarrow> Inl TypeError) of
             Inl e \<Rightarrow> Inl e
           | Inr bound \<Rightarrow>
               (case subscript_zero bound of
                  Inl e \<Rightarrow> Inl e
                | Inr first \<Rightarrow>
                    (case subscript_str first ''credentials'' of
                       Inl e \<Rightarrow> Inl e
                     | Inr credentials \<Rightarrow> cloud_foundry_loop vcap_services rest credentials))))"

definition check_for_cloud_foundry_binding ::
  "(string \<Rightarrow> error + pyval) \<Rightarrow> environ \<Rightarrow> error + pyval" where
  "check_for_cloud_foundry_binding loads env =
     (case env ''VCAP_SERVICES'' of
        None \<Rightarrow> Inr (PDict [])
      | Some text \<Rightarrow>
          (case loads text of
             Inl e \<Rightarrow> Inl e
           | Inr vcap_services \<Rightarrow>
               (case iterate vcap_services of
                  Inl e \<Rightarrow> Inl e
                | Inr services \<Rightarrow> cloud_foundry_loop vcap_services services (PDict []))))"

text \<open>
  \<^verbatim>\<open>
  def __check_for_kubernetes_binding():
      opts = {}
      if "BINDING_CLOUDANT" in os.environ:
          opts = json.loads(os.environ["BINDING_CLOUDANT"])
      return opts

  def __check_for_local_binding():
      opts = {
          "username": CLOUDANT_USERNAME,
          "password": CLOUDANT_PASSWORD,
          "host": CLOUDANT_HOST,
          "port": 5984,
          "url": "http://" + CLOUDANT_HOST + ":5984/",
      }
      return opts
  \<close>
\<close>

definition check_for_kubernetes_binding ::
  "(string \<Rightarrow> error + pyval) \<Rightarrow> environ \<Rightarrow> error + pyval" where
  "check_for_kubernetes_binding loads env =
     (case env ''BINDING_CLOUDANT'' of
        None \<Rightarrow> Inr (PDict [])
      | Some text \<Rightarrow> loads text)"

definition check_for_local_binding :: "environ \<Rightarrow> pyval" where
  "check_for_local_binding env =
     PDict [(''username'', PStr (CLOUDANT_USERNAME env)),
            (''password'', PStr (CLOUDANT_PASSWORD env)),
            (''host'', PStr (CLOUDANT_HOST env)),
            (''port'', PInt 5984),
            (''url'', PStr (''http://'' @ CLOUDANT_HOST env @ '':5984/''))]"

text \<open>
  The Cloudant service as \<^verbatim>\<open>init_db\<close> meets it: what connecting raises (if anything),
  the databases that exist, whether the service creates one when asked, and the
  connections attempted so far, each with the user name, password and URL it was given.
  \<^verbatim>\<open>Base.client\<close> and \<^verbatim>\<open>Base.database\<close> are the two class attributes that \<^verbatim>\<open>init_db\<close>
  assigns. \<^verbatim>\<open>client[dbname]\<close> raises KeyError for a database that does not exist, and
  \<^verbatim>\<open>client.create_database(dbname)\<close> raises the library's CloudantDatabaseException when
  the service does not create it, in which case nothing is assigned to \<^verbatim>\<open>Base.database\<close>.
\<close>

record client =
  client_user :: pyval
  client_auth :: pyval
  client_url :: pyval
  client_admin_party :: bool

record cloudant =
  connect_fault :: "transport_fault option"
  databases :: "string list"
  creates :: bool
  connections :: "(pyval \<times> pyval \<times> pyval) list"
  Base_client :: "client option"
  Base_database :: "string option"

text \<open>
  \<^verbatim>\<open>
  def init_db(dbname: str = "base"):
      opts = Base.__check_for_cloud_foundry_binding()
      if not opts:
          opts = Base.__check_for_kubernetes_binding()
      if not opts:
          opts = Base.__check_for_local_binding()
      if any(k not in opts for k in ("host", "username", "password", "port", "url")):
          raise DatabaseConnectionError(
              "Error - Failed to retrieve options. "
              "Check that app is bound to a Cloudant service."
          )
      Base.logger.info("Cloudant Endpoint: %s", opts["url"])
      try:
          if ADMIN_PARTY:
              Base.logger.info("Running in Admin Party Mode...")
          Base.client = Cloudant(opts["username"], opts["password"], url=opts["url"],
              connect=True, auto_renew=True, admin_party=ADMIN_PARTY,
              adapter=Replay429Adapter(retries=10, initialBackoff=0.01))
      except ConnectionError as exc:
          raise DatabaseConnectionError("Cloudant service could not be reached") from exc
      try:
          Base.database = Base.client[dbname]
      except KeyError:
          Base.database = Base.client.create_database(dbname)
      if not Base.database.exists():
          raise DatabaseConnectionError(f"Database [{dbname}] could not be obtained")
  \<close>
  The first three statements are \<open>resolve_binding\<close>, the \<^verbatim>\<open>any(...)\<close> test is
  \<open>any_missing\<close>, the rest of the body is \<open>connect_and_bind\<close>.
\<close>

definition resolve_binding :: "(string \<Rightarrow> error + pyval) \<Rightarrow> environ \<Rightarrow> error + pyval" where
  "resolve_binding loads env =
     (case check_for_cloud_foundry_binding loads env of
        Inl e \<Rightarrow> Inl e
      | Inr opts \<Rightarrow>
          if truthy opts then Inr opts
          else (case check_for_kubernetes_binding loads env of
                  Inl e \<Rightarrow> Inl e
                | Inr opts1 \<Rightarrow>
                    if truthy opts1 then Inr opts1 else Inr (check_for_local_binding env)))"

fun any_missing :: "string list \<Rightarrow> pyval \<Rightarrow> error + bool" where
  "any_missing [] opts = Inr False"
| "any_missing (k # ks) opts =
     (case contains_str k opts of
        Inl e \<Rightarrow> Inl e
      | Inr True \<Rightarrow> any_missing ks opts
      | Inr False \<Rightarrow> Inr True)"

definition required_options :: "string list" where
  "required_options = [''host'', ''username'', ''password'', ''port'', ''url'']"

definition failed_to_retrieve_options :: string where
  "failed_to_retrieve_options =
     ''Error - Failed to retrieve options. '' @ ''Check that app is bound to a Cloudant service.''"

definition connect_and_bind ::
  "environ \<Rightarrow> pyval \<Rightarrow> string \<Rightarrow> cloudant \<Rightarrow> (error + unit) \<times> cloudant" where
  "connect_and_bind env opts dbname c =
     (case subscript_str opts ''url'' of
        Inl e \<Rightarrow> (Inl e, c)
      | Inr endpoint \<Rightarrow>
     (case subscript_str opts ''username'' of
        Inl e \<Rightarrow> (Inl e, c)
      | Inr username \<Rightarrow>
     (case subscript_str opts ''password'' of
        Inl e \<Rightarrow> (Inl e, c)
      | Inr password \<Rightarrow>
     (case subscript_str opts ''url'' of
        Inl e \<Rightarrow> (Inl e, c)
      | Inr url \<Rightarrow>
          (let c1 = c\<lparr>connections := connections c @ [(username, password, url)]\<rparr>
           in case connect_fault c1 of
                Some f \<Rightarrow>
                  if raised f = ConnectionError
                  then (Inl (DatabaseConnectionError ''Cloudant service could not be reached''), c1)
                  else (Inl (raised f), c1)
              | None \<Rightarrow>
                  (let c2 = c1\<lparr>Base_client :=
                                 Some \<lparr>client_user = username, client_auth = password,
                                       client_url = url, client_admin_party = ADMIN_PARTY env\<rparr>\<rparr>
                   in case (if dbname \<in> set (databases c2) then Inr c2
                            else if creates c2 then Inr (c2\<lparr>databases := databases c2 @ [dbname]\<rparr>)
                            else Inl CloudantDatabaseException) of
                        Inl e \<Rightarrow> (Inl e, c2)
                      | Inr c3 \<Rightarrow>
                          (let c4 = c3\<lparr>Base_database := Some dbname\<rparr>
                           in if dbname \<in> set (databases c4) then (Inr (), c4)
                              else (Inl (DatabaseConnectionError
                                           (''Database ['' @ dbname @ ''] could not be obtained'')),
                                    c4))))))))"

definition init_db ::
  "(string \<Rightarrow> error + pyval) \<Rightarrow> environ \<Rightarrow> string \<Rightarrow> cloudant \<Rightarrow> (error + unit) \<times> cloudant" where
  "init_db loads env dbname c =
     (case resolve_binding loads env of
        Inl e \<Rightarrow> (Inl e, c)
      | Inr opts \<Rightarrow>
          (case any_missing required_options opts of
             Inl e \<Rightarrow> (Inl e, c)
           | Inr True \<Rightarrow> (Inl (DatabaseConnectionError failed_to_retrieve_options), c)
           | Inr False \<Rightarrow> connect_and_bind env opts dbname c))"

section \<open>Sample records, stores and environments\<close>

text \<open>
  Concrete inputs on which the results below are evaluated: fault schedules, a service
  (ids, revisions, collation, selector matching by equality of fields, index documents),
  records, stores with and without a document, retry settings, and environments with and
  without a binding.
\<close>

definition every_call :: "transport_fault \<Rightarrow> nat \<Rightarrow> transport_fault option" where
  "every_call f i = Some f"

definition no_fault :: "nat \<Rightarrow> transport_fault option" where
  "no_fault i = None"

definition sample_id :: "nat \<Rightarrow> string" where
  "sample_id i = ''doc-'' @ replicate (Suc i) CHR ''a''"

definition sample_rev :: "nat \<Rightarrow> pyval" where
  "sample_rev i = PStr (''1-'' @ replicate (Suc i) CHR ''r'')"

fun sample_collates :: "string \<Rightarrow> string \<Rightarrow> bool" where
  "sample_collates [] b = (b \<noteq> [])"
| "sample_collates (c # a) [] = False"
| "sample_collates (c # a) (d # b) =
     ((of_char c :: nat) < of_char d \<or> (c = d \<and> sample_collates a b))"

definition sample_selects :: "pydict \<Rightarrow> (pydict \<Rightarrow> bool) option" where
  "sample_selects selector = Some (\<lambda>d. list_all (\<lambda>(k, v). map_of d k = Some v) selector)"

definition sample_index :: "string \<Rightarrow> string \<Rightarrow> (string \<times> pydict) option" where
  "sample_index field_name order =
     (if order = ''asc'' \<or> order = ''desc''
      then Some (''_design/'' @ field_name,
                 [(''_id'', PStr (''_design/'' @ field_name)), (''_rev'', PStr ''1-i''),
                  (''language'', PStr ''query''),
                  (''views'', PDict [(field_name, PDict [(''fields'', PDict [(field_name, PStr order)])])])])
      else None)"

definition rex :: base where
  "rex = \<lparr>id_attr = PNone, name = PStr ''Rex''\<rparr>"

definition rex_saved :: base where
  "rex_saved = \<lparr>id_attr = PStr ''p1'', name = PStr ''Rex''\<rparr>"

definition nameless :: base where
  "nameless = \<lparr>id_attr = PNone, name = PNone\<rparr>"

definition empty_world :: world where
  "empty_world = \<lparr>docs = [], cache = [], faults = no_fault, calls = 0,
                   fresh_id = sample_id, fresh_rev = sample_rev, accepts = (\<lambda>body. True),
                   collates = sample_collates, selects = sample_selects,
                   index_document = sample_index, warnings = [], slept = []\<rparr>"

definition failing_world :: world where
  "failing_world = empty_world\<lparr>faults := every_call Transient\<rparr>"

definition unreachable_world :: world where
  "unreachable_world = empty_world\<lparr>faults := every_call Unreachable\<rparr>"

definition max_fields :: pydict where
  "max_fields = [(''name'', PStr ''Max''), (''_id'', PStr ''p1''), (''_rev'', PStr ''1-r''),
                 (''category'', PStr ''dog'')]"

definition stocked_world :: world where
  "stocked_world = empty_world\<lparr>docs := [(''p1'', max_fields)]\<rparr>"

definition held_world :: world where
  "held_world = stocked_world\<lparr>cache := [(''p1'', max_fields)]\<rparr>"

definition held_failing_world :: world where
  "held_failing_world = held_world\<lparr>faults := every_call Transient\<rparr>"

text \<open>The world after \<^verbatim>\<open>delete\<close> of the one document of \<open>stocked_world\<close>.\<close>

definition deleted_world :: world where
  "deleted_world =
     stocked_world\<lparr>calls := 3, docs := [], cache := [(''p1'', [(''_id'', PStr ''p1'')])]\<rparr>"

text \<open>A service that fails the second and the fourth request and answers the others.\<close>

definition flaky_world :: world where
  "flaky_world =
     empty_world\<lparr>faults := (\<lambda>i. if i = 1 \<or> i = 3 then Some Transient else None)\<rparr>"

definition no_retry :: config where
  "no_retry = \<lparr>RETRY_COUNT = 0, RETRY_DELAY = 1, RETRY_BACKOFF = 2\<rparr>"

definition negative_delay :: config where
  "negative_delay = \<lparr>RETRY_COUNT = 10, RETRY_DELAY = - 1, RETRY_BACKOFF = 2\<rparr>"

definition two_tries :: config where
  "two_tries = \<lparr>RETRY_COUNT = 2, RETRY_DELAY = 1, RETRY_BACKOFF = 2\<rparr>"

definition bare_env :: environ where
  "bare_env = Map.empty"

definition local_env :: environ where
  "local_env = [''CLOUDANT_HOST'' \<mapsto> ''db.internal'', ''CLOUDANT_USERNAME'' \<mapsto> ''joe'',
                ''CLOUDANT_PASSWORD'' \<mapsto> ''secret'']"

definition kubernetes_env :: environ where
  "kubernetes_env = [''BINDING_CLOUDANT'' \<mapsto> ''binding without url'']"

definition cloud_foundry_env :: environ where
  "cloud_foundry_env = [''VCAP_SERVICES'' \<mapsto> ''services'', ''BINDING_CLOUDANT'' \<mapsto> ''binding without url'']"

definition sample_credentials :: pyval where
  "sample_credentials =
     PDict [(''host'', PStr ''db.example''), (''username'', PStr ''u''), (''password'', PStr ''p''),
            (''port'', PInt 443), (''url'', PStr ''https://db.example:443/'')]"

definition sample_loads :: "string \<Rightarrow> error + pyval" where
  "sample_loads text =
     (if text = ''binding without url''
      then Inr (PDict [(''host'', PStr ''db.example''), (''username'', PStr ''u''),
                       (''password'', PStr ''p''), (''port'', PInt 443)])
      else if text = ''services''
      then Inr (PDict [(''user-provided'', PList []),
                       (''cloudantNoSQLDB Dedicated'', PList [PDict [(''credentials'', sample_credentials)]])])
      else Inl JSONDecodeError)"

definition fresh_cloudant :: cloudant where
  "fresh_cloudant = \<lparr>connect_fault = None, databases = [], creates = True, connections = [],
                      Base_client = None, Base_database = None\<rparr>"

section \<open>Serialization\<close>

text \<open>
  C5. Round trip: deserializing \<open>serialize r\<close> into a fresh instance succeeds and gives
  back the name of \<open>r\<close>, and its id whenever \<open>r\<close> has one. An id counts as assigned as
  the source tests it (\<^verbatim>\<open>if self.id\<close>): a value that is neither \<^verbatim>\<open>None\<close> nor empty.
  \<open>serialize\<close> always carries the name and carries \<^verbatim>\<open>_id\<close> exactly in that case.
\<close>

theorem serialize_deserialize_roundtrip:
  "deserialize (Base nm) (PDict (serialize r)) =
     Inr \<lparr>id_attr = (if truthy (id_attr r) then id_attr r else PNone), name = name r\<rparr>
   \<and> map_of (serialize r) ''name'' = Some (name r)
   \<and> map_of (serialize r) ''_id'' = (if truthy (id_attr r) then Some (id_attr r) else None)"
  by (cases "truthy (id_attr r)")
     (simp_all add: deserialize_def serialize_def Base_def dict_set_def Let_def)

theorem serialize_deserialize_roundtrip_witness:
  "truthy (id_attr rex_saved)
   \<and> deserialize (Base PNone) (PDict (serialize rex_saved)) = Inr rex_saved
   \<and> map_of (serialize rex_saved) ''_id'' = Some (PStr ''p1'')
   \<and> deserialize (Base PNone) (PDict (serialize rex)) = Inr rex
   \<and> map_of (serialize rex) ''_id'' = None"
  using serialize_deserialize_roundtrip [of PNone rex_saved]
        serialize_deserialize_roundtrip [of PNone rex]
  by (simp add: rex_saved_def rex_def)

text \<open>
  C6. \<open>deserialize\<close> raises DataValidationError exactly when the data is not a dict or
  is a dict without the key \<^verbatim>\<open>name\<close>, and raises nothing else. Otherwise it returns the
  instance with the name taken from the data; the id is taken from the data's \<^verbatim>\<open>_id\<close>
  only when the instance has no id yet (\<^verbatim>\<open>not self.id\<close>) and the data has one, and is
  left alone in every other case.
\<close>

theorem deserialize_contract:
  "((\<exists>msg. deserialize self data = Inl (DataValidationError msg)) \<longleftrightarrow>
      (case data of PDict kvs \<Rightarrow> map_of kvs ''name'' = None | _ \<Rightarrow> True))
   \<and> (\<forall>e. deserialize self data = Inl e \<longrightarrow> (\<exists>msg. e = DataValidationError msg))
   \<and> (\<forall>kvs n. data = PDict kvs \<and> map_of kvs ''name'' = Some n \<longrightarrow>
         deserialize self data =
           Inr \<lparr>id_attr = (if truthy (id_attr self) then id_attr self
                           else case map_of kvs ''_id'' of None \<Rightarrow> id_attr self | Some i \<Rightarrow> i),
                name = n\<rparr>)"
proof (intro conjI allI impI)
  show "(\<exists>msg. deserialize self data = Inl (DataValidationError msg)) \<longleftrightarrow>
      (case data of PDict kvs \<Rightarrow> map_of kvs ''name'' = None | _ \<Rightarrow> True)"
    by (cases data) (auto simp: deserialize_def Let_def split: option.splits sum.splits error.splits bool.splits)
next
  fix e assume "deserialize self data = Inl e"
  then show "\<exists>msg. e = DataValidationError msg"
    by (cases data) (auto simp: deserialize_def Let_def split: option.splits sum.splits error.splits bool.splits if_splits)
next
  fix kvs n assume "data = PDict kvs \<and> map_of kvs ''name'' = Some n"
  then show "deserialize self data =
           Inr \<lparr>id_attr = (if truthy (id_attr self) then id_attr self
                           else case map_of kvs ''_id'' of None \<Rightarrow> id_attr self | Some i \<Rightarrow> i),
                name = n\<rparr>"
    by (cases self) (auto simp: deserialize_def Let_def split: option.splits sum.splits error.splits bool.splits)
qed

theorem deserialize_contract_witness:
  "deserialize rex PNone =
     Inl (DataValidationError ''Invalid record: body of request contained bad or no data'')
   \<and> deserialize rex (PDict []) = Inl (DataValidationError ''Invalid record: missing name'')
   \<and> deserialize nameless (PDict [(''name'', PStr ''Rex''), (''_id'', PStr ''p1'')]) = Inr rex_saved
   \<and> deserialize rex_saved (PDict [(''name'', PStr ''Max''), (''_id'', PStr ''p2'')]) =
       Inr \<lparr>id_attr = PStr ''p1'', name = PStr ''Max''\<rparr>"
  using deserialize_contract [of rex PNone] deserialize_contract [of rex "PDict []"]
        deserialize_contract [of nameless "PDict [(''name'', PStr ''Rex''), (''_id'', PStr ''p1'')]"]
        deserialize_contract [of rex_saved "PDict [(''name'', PStr ''Max''), (''_id'', PStr ''p2'')]"]
  by (simp add: deserialize_def rex_def rex_saved_def nameless_def)

section \<open>Connection discovery\<close>

lemma any_missing_dict:
  "any_missing ks (PDict kvs) = Inr (\<exists>k \<in> set ks. map_of kvs k = None)"
  by (induction ks) (auto split: bool.splits)

lemma local_binding_complete:
  "any_missing required_options (check_for_local_binding env) = Inr False"
  by (simp add: check_for_local_binding_def required_options_def)

text \<open>
  C1. When the resolved options are a dict that lacks one of \<^verbatim>\<open>host\<close>, \<^verbatim>\<open>username\<close>,
  \<^verbatim>\<open>password\<close>, \<^verbatim>\<open>port\<close>, \<^verbatim>\<open>url\<close>, \<open>init_db\<close> raises DatabaseConnectionError with the
  message about the options that could not be retrieved (the module has one exception
  class for configuration and connection failures), and the service is as before: no
  connection was attempted and no class attribute was assigned.
\<close>

theorem init_db_missing_option:
  assumes "resolve_binding loads env = Inr (PDict kvs)"
    and "\<exists>k \<in> set required_options. map_of kvs k = None"
  shows "init_db loads env dbname c =
           (Inl (DatabaseConnectionError failed_to_retrieve_options), c)"
  using assms by (simp add: init_db_def any_missing_dict)

lemma kubernetes_env_resolves:
  "resolve_binding sample_loads kubernetes_env =
     Inr (PDict [(''host'', PStr ''db.example''), (''username'', PStr ''u''),
                 (''password'', PStr ''p''), (''port'', PInt 443)])"
  by (simp add: resolve_binding_def check_for_cloud_foundry_binding_def
      check_for_kubernetes_binding_def kubernetes_env_def sample_loads_def)

theorem init_db_missing_option_witness:
  "resolve_binding sample_loads kubernetes_env =
     Inr (PDict [(''host'', PStr ''db.example''), (''username'', PStr ''u''),
                 (''password'', PStr ''p''), (''port'', PInt 443)])
   \<and> ''url'' \<in> set required_options
   \<and> map_of [(''host'', PStr ''db.example''), (''username'', PStr ''u''),
              (''password'', PStr ''p''), (''port'', PInt 443)] ''url'' = None
   \<and> init_db sample_loads kubernetes_env ''base'' fresh_cloudant =
       (Inl (DatabaseConnectionError failed_to_retrieve_options), fresh_cloudant)
   \<and> connections fresh_cloudant = []"
proof -
  have m: "\<exists>k \<in> set required_options.
             map_of [(''host'', PStr ''db.example''), (''username'', PStr ''u''),
                     (''password'', PStr ''p''), (''port'', PInt 443)] k = None"
    by (simp add: required_options_def)
  show ?thesis
    using init_db_missing_option [OF kubernetes_env_resolves m, of "''base''" fresh_cloudant]
          kubernetes_env_resolves
    by (simp add: required_options_def fresh_cloudant_def)
qed

text \<open>
  C9. The three sources are asked in order and the first result that is not empty is
  the one returned: the Cloud Foundry binding if it is non-empty; else the Kubernetes
  binding if that is non-empty; else the local binding. A source whose variable is not
  set gives the empty dict. The local binding takes user name, password and host from
  \<^verbatim>\<open>CLOUDANT_USERNAME\<close>, \<^verbatim>\<open>CLOUDANT_PASSWORD\<close> and \<^verbatim>\<open>CLOUDANT_HOST\<close> with the defaults
  \<^verbatim>\<open>admin\<close>, \<^verbatim>\<open>pass\<close> and \<^verbatim>\<open>localhost\<close>, has the port 5984 and the URL
  \<^verbatim>\<open>http://{host}:5984/\<close>, and \<open>init_db\<close> validates what \<open>resolve_binding\<close> returned.
\<close>

theorem resolve_binding_priority:
  "(check_for_cloud_foundry_binding loads env = Inr a \<and> truthy a \<longrightarrow>
      resolve_binding loads env = Inr a)
   \<and> (check_for_cloud_foundry_binding loads env = Inr a \<and> \<not> truthy a \<and>
      check_for_kubernetes_binding loads env = Inr b \<and> truthy b \<longrightarrow>
      resolve_binding loads env = Inr b)
   \<and> (check_for_cloud_foundry_binding loads env = Inr a \<and> \<not> truthy a \<and>
      check_for_kubernetes_binding loads env = Inr b \<and> \<not> truthy b \<longrightarrow>
      resolve_binding loads env = Inr (check_for_local_binding env))
   \<and> (env ''VCAP_SERVICES'' = None \<longrightarrow>
      check_for_cloud_foundry_binding loads env = Inr (PDict []))
   \<and> (env ''BINDING_CLOUDANT'' = None \<longrightarrow>
      check_for_kubernetes_binding loads env = Inr (PDict []))
   \<and> check_for_local_binding env =
       PDict [(''username'', PStr (case env ''CLOUDANT_USERNAME'' of None \<Rightarrow> ''admin'' | Some v \<Rightarrow> v)),
              (''password'', PStr (case env ''CLOUDANT_PASSWORD'' of None \<Rightarrow> ''pass'' | Some v \<Rightarrow> v)),
              (''host'', PStr (case env ''CLOUDANT_HOST'' of None \<Rightarrow> ''localhost'' | Some v \<Rightarrow> v)),
              (''port'', PInt 5984),
              (''url'', PStr (''http://'' @ (case env ''CLOUDANT_HOST'' of None \<Rightarrow> ''localhost'' | Some v \<Rightarrow> v) @ '':5984/''))]
   \<and> (resolve_binding loads env = Inr opts \<and> any_missing required_options opts = Inr False \<longrightarrow>
      init_db loads env dbname c = connect_and_bind env opts dbname c)"
  by (simp add: resolve_binding_def check_for_local_binding_def CLOUDANT_HOST_def
      CLOUDANT_USERNAME_def CLOUDANT_PASSWORD_def check_for_cloud_foundry_binding_def
      check_for_kubernetes_binding_def init_db_def getenv_def)

theorem resolve_binding_priority_witness:
  "resolve_binding sample_loads cloud_foundry_env = Inr sample_credentials
   \<and> check_for_cloud_foundry_binding sample_loads cloud_foundry_env = Inr sample_credentials
   \<and> truthy sample_credentials
   \<and> check_for_cloud_foundry_binding sample_loads kubernetes_env = Inr (PDict [])
   \<and> truthy (PDict [(''host'', PStr ''db.example''), (''username'', PStr ''u''),
                     (''password'', PStr ''p''), (''port'', PInt 443)])
   \<and> resolve_binding sample_loads kubernetes_env =
       Inr (PDict [(''host'', PStr ''db.example''), (''username'', PStr ''u''),
                   (''password'', PStr ''p''), (''port'', PInt 443)])
   \<and> resolve_binding sample_loads bare_env =
       Inr (PDict [(''username'', PStr ''admin''), (''password'', PStr ''pass''),
                   (''host'', PStr ''localhost''), (''port'', PInt 5984),
                   (''url'', PStr ''http://localhost:5984/'')])
   \<and> resolve_binding sample_loads local_env =
       Inr (PDict [(''username'', PStr ''joe''), (''password'', PStr ''secret''),
                   (''host'', PStr ''db.internal''), (''port'', PInt 5984),
                   (''url'', PStr ''http://db.internal:5984/'')])
   \<and> fst (init_db sample_loads bare_env ''base'' fresh_cloudant) = Inr ()
   \<and> connections (snd (init_db sample_loads bare_env ''base'' fresh_cloudant)) =
       [(PStr ''admin'', PStr ''pass'', PStr ''http://localhost:5984/'')]
   \<and> connections (snd (init_db sample_loads local_env ''base'' fresh_cloudant)) =
       [(PStr ''joe'', PStr ''secret'', PStr ''http://db.internal:5984/'')]"
  using resolve_binding_priority [of sample_loads cloud_foundry_env sample_credentials]
        resolve_binding_priority [of sample_loads kubernetes_env "PDict []"
          "PDict [(''host'', PStr ''db.example''), (''username'', PStr ''u''),
                  (''password'', PStr ''p''), (''port'', PInt 443)]"]
        resolve_binding_priority [of sample_loads bare_env "PDict []" "PDict []"
          "check_for_local_binding bare_env" "''base''" fresh_cloudant]
        resolve_binding_priority [of sample_loads local_env "PDict []" "PDict []"
          "check_for_local_binding local_env" "''base''" fresh_cloudant]
  by (simp add: check_for_cloud_foundry_binding_def check_for_kubernetes_binding_def
      cloud_foundry_env_def kubernetes_env_def bare_env_def local_env_def sample_loads_def
      sample_credentials_def getenv_def required_options_def connect_and_bind_def
      fresh_cloudant_def Let_def)

section \<open>The retry decorator: general facts\<close>

lemma retry_internal_zero:
  "retry_internal f none lg sl 0 delay backoff s = Some (Inr none, s)"
  by (subst retry_internal.simps) simp

lemma retry_internal_passes:
  "f s = Some rs \<Longrightarrow> fst rs \<noteq> Inl HTTPError \<Longrightarrow> tries \<noteq> 0 \<Longrightarrow>
   retry_internal f none lg sl tries delay backoff s = Some rs"
  by (subst retry_internal.simps) (auto split: sum.splits prod.splits)

lemma retry_internal_last:
  "f s = Some (Inl HTTPError, s1) \<Longrightarrow>
   retry_internal f none lg sl 1 delay backoff s = Some (Inl HTTPError, s1)"
  by (subst retry_internal.simps) simp

lemma retry_internal_again:
  "f s = Some (Inl HTTPError, s1) \<Longrightarrow> sl delay (lg s1) = Inr s2 \<Longrightarrow>
   tries \<noteq> 0 \<Longrightarrow> tries \<noteq> 1 \<Longrightarrow>
   retry_internal f none lg sl tries delay backoff s =
     retry_internal f none lg sl (tries - 1) (delay * backoff) backoff s2"
  by (subst retry_internal.simps) simp

lemma retry_internal_sleep_raises:
  "f s = Some (Inl HTTPError, s1) \<Longrightarrow> sl delay (lg s1) = Inl e \<Longrightarrow>
   tries \<noteq> 0 \<Longrightarrow> tries \<noteq> 1 \<Longrightarrow>
   retry_internal f none lg sl tries delay backoff s = Some (Inl e, lg s1)"
  by (subst retry_internal.simps) simp

text \<open>
  What holds of every state the loop passes through and of every outcome of a run of the
  body or of a sleep also holds when the decorated call returns.
\<close>

lemma retry_internal_invariant:
  assumes ret: "retry_internal f none lg sl tries delay backoff s = Some (r, s')"
    and init: "P s"
    and step: "\<And>s r s1. P s \<Longrightarrow> f s = Some (r, s1) \<Longrightarrow> P s1 \<and> Q r"
    and log: "\<And>s. P s \<Longrightarrow> P (lg s)"
    and sleep: "\<And>d s. P s \<Longrightarrow> (case sl d s of Inl e \<Rightarrow> Q (Inl e) | Inr s1 \<Rightarrow> P s1)"
    and none: "Q (Inr none)"
  shows "P s' \<and> Q r"
proof -
  have "f = f \<longrightarrow> lg = lg \<longrightarrow> sl = sl \<longrightarrow> none = none \<longrightarrow> P s
        \<longrightarrow> P (snd (r, s')) \<and> Q (fst (r, s'))"
  proof (rule retry_internal.raw_induct
      [where P = "\<lambda>f' none' lg' sl' tries' delay' backoff' s y.
                    f' = f \<longrightarrow> lg' = lg \<longrightarrow> sl' = sl \<longrightarrow> none' = none \<longrightarrow> P s
                    \<longrightarrow> P (snd y) \<and> Q (fst y)",
        OF _ ret], goal_cases)
    case (1 rec f' none' lg' sl' tries' delay' backoff' s y)
    show ?case
    proof (intro impI)
      assume eq: "f' = f" "lg' = lg" "sl' = sl" "none' = none" and Ps: "P s"
      show "P (snd y) \<and> Q (fst y)"
      proof (cases "tries' = 0")
        case True
        with 1(2) Ps none eq show ?thesis by auto
      next
        case False
        show ?thesis
        proof (cases "f s")
          case None
          with 1(2) False eq show ?thesis by simp
        next
          case (Some a)
          obtain res s1 where a: "a = (res, s1)" by (cases a)
          have Ps1: "P s1 \<and> Q res" using step[OF Ps] Some a by simp
          show ?thesis
          proof (cases res)
            case (Inr v)
            with 1(2) False eq Some a Ps1 show ?thesis by auto
          next
            case (Inl e)
            show ?thesis
            proof (cases "e = HTTPError \<and> tries' - 1 \<noteq> 0")
              case True
              have Pl: "P (lg s1)" using log Ps1 by simp
              show ?thesis
              proof (cases "sl delay' (lg s1)")
                case sInl: (Inl e1)
                then have y: "y = (Inl e1, lg s1)"
                  using 1(2) False eq Some a Inl True by simp
                from sleep[OF Pl, of delay'] sInl have "Q (Inl e1)" by simp
                with y Pl show ?thesis by simp
              next
                case sInr: (Inr s2)
                then have "rec f none lg sl (tries' - 1) (delay' * backoff') backoff' s2 = Some y"
                  using 1(2) False eq Some a Inl True by simp
                moreover from sleep[OF Pl, of delay'] sInr have "P s2" by simp
                ultimately show ?thesis using 1(1) by simp
              qed
            next
              case F2: False
              then show ?thesis using 1(2) False eq Some a Inl Ps1 by (auto split: if_splits)
            qed
          qed
        qed
      qed
    qed
  qed
  with init show ?thesis by simp
qed

text \<open>
  A body that fails with HTTPError in every state of an invariant \<open>I\<close> is run
  \<open>Suc n\<close> times when \<open>tries = Suc n\<close>, and then the error is raised, provided that the
  \<open>n\<close> sleeps in between return: \<open>cnt\<close> is any quantity that a run raises by \<open>k\<close> and
  that the log call and the sleep leave alone, \<open>tr\<close> a record of the sleeps, \<open>ok\<close> a
  condition under which the sleep returns.
\<close>

lemma retry_internal_exhausts:
  assumes fail: "\<And>s. I s \<Longrightarrow>
                   \<exists>s1. f s = Some (Inl HTTPError, s1) \<and> I s1 \<and> cnt s1 = cnt s + k \<and> tr s1 = tr s"
    and lg: "\<And>s. I s \<Longrightarrow> I (lg s) \<and> cnt (lg s) = cnt s \<and> tr (lg s) = tr s"
    and sl: "\<And>s d. I s \<Longrightarrow> ok d \<Longrightarrow>
                   \<exists>s1. sl d s = Inr s1 \<and> I s1 \<and> cnt s1 = cnt s \<and> tr s1 = tr s @ [d]"
  shows "I s \<Longrightarrow> (\<forall>i<n. ok (delay * backoff ^ i)) \<Longrightarrow>
         \<exists>s'. retry_internal f none lg sl (int (Suc n)) delay backoff s = Some (Inl HTTPError, s')
              \<and> I s' \<and> cnt s' = cnt s + Suc n * k
              \<and> tr s' = tr s @ map (\<lambda>i. delay * backoff ^ i) [0..<n]"
proof (induction n arbitrary: s delay)
  case 0
  from fail[OF 0(1)] obtain s1
    where "f s = Some (Inl HTTPError, s1)" "I s1" "cnt s1 = cnt s + k" "tr s1 = tr s" by blast
  then show ?case using retry_internal_last[of f s s1 none lg sl delay backoff] by simp
next
  case (Suc n)
  from fail[OF Suc.prems(1)] obtain s1
    where s1: "f s = Some (Inl HTTPError, s1)" "I s1" "cnt s1 = cnt s + k" "tr s1 = tr s"
    by blast
  from lg[OF s1(2)] have l: "I (lg s1)" "cnt (lg s1) = cnt s1" "tr (lg s1) = tr s1" by auto
  have okd: "ok delay" using Suc.prems(2)[rule_format, of 0] by simp
  from sl[OF l(1) okd] obtain s2
    where s2: "sl delay (lg s1) = Inr s2" "I s2" "cnt s2 = cnt (lg s1)"
      "tr s2 = tr (lg s1) @ [delay]" by blast
  have oks: "\<forall>i<n. ok (delay * backoff * backoff ^ i)"
  proof (intro allI impI)
    fix i assume "i < n"
    then have "Suc i < Suc n" by simp
    from Suc.prems(2)[rule_format, OF this] have "ok (delay * backoff ^ Suc i)" .
    then show "ok (delay * backoff * backoff ^ i)" by (simp add: mult.assoc)
  qed
  from Suc.IH[OF s2(2) oks] obtain s'
    where s': "retry_internal f none lg sl (int (Suc n)) (delay * backoff) backoff s2 =
                 Some (Inl HTTPError, s')"
      "I s'" "cnt s' = cnt s2 + Suc n * k"
      "tr s' = tr s2 @ map (\<lambda>i. delay * backoff * backoff ^ i) [0..<n]" by blast
  have step: "retry_internal f none lg sl (int (Suc (Suc n))) delay backoff s =
        retry_internal f none lg sl (int (Suc (Suc n)) - 1) (delay * backoff) backoff s2"
    using s1(1) s2(1) by (intro retry_internal_again) simp_all
  have trace: "map (\<lambda>i. delay * backoff ^ i) [0..<Suc n] =
                 delay # map (\<lambda>i. delay * backoff * backoff ^ i) [0..<n]"
    by (simp add: map_upt_Suc mult.assoc del: upt_Suc)
  have "tr s' = tr s @ map (\<lambda>i. delay * backoff ^ i) [0..<Suc n]"
    unfolding trace using s'(4) s2(4) l(3) s1(4) by simp
  then show ?case using step s' l s1 s2 by (simp add: algebra_simps del: upt_Suc)
qed

lemma positive_int_Suc: "1 \<le> (r::int) \<Longrightarrow> \<exists>n. r = int (Suc n)"
  by (rule exI[of _ "nat r - 1"]) simp

section \<open>The store calls\<close>

lemmas store_defs =
  database_getitem_def create_document_def document_create_def document_exists_def
  document_fetch_def document_update_def document_save_def document_delete_def
  database_setitem_def Document_def document_json_def dict_update_def
  database_iter_def query_result_def database_create_query_index_def request_def
  logger_warning_def retry_warning_def time_sleep_def sleep_self_def sleep_max_def

lemmas sample_defs =
  rex_def rex_saved_def nameless_def empty_world_def failing_world_def unreachable_world_def
  stocked_world_def held_world_def held_failing_world_def deleted_world_def flaky_world_def
  max_fields_def
  every_call_def no_fault_def sample_id_def sample_rev_def
  default_config_def no_retry_def negative_delay_def two_tries_def

lemma raised_not_KeyError: "raised f \<noteq> KeyError"
  by (cases f) simp_all

lemma raised_not_validation: "raised f \<noteq> DataValidationError msg"
  by (cases f) simp_all

text \<open>\<^verbatim>\<open>database[key]\<close>, case by case.\<close>

lemma getitem_not_string:
  "\<forall>s. key \<noteq> PStr s \<Longrightarrow> database_getitem w key = (Inl AttributeError, w)"
  by (cases key) (simp_all add: database_getitem_def)

lemma getitem_held:
  "map_of (cache w) s = Some flds \<Longrightarrow>
   database_getitem w (PStr s) = (Inr \<lparr>doc_key = s, doc_fields = flds\<rparr>, w)"
  by (simp add: database_getitem_def)

lemma getitem_no_id:
  "map_of (cache w) [] = None \<Longrightarrow> database_getitem w (PStr []) = (Inl KeyError, w)"
  by (simp add: database_getitem_def document_exists_def Document_def)

lemma getitem_raises:
  "map_of (cache w) s = None \<Longrightarrow> s \<noteq> [] \<Longrightarrow> faults w (calls w) = Some f \<Longrightarrow>
   database_getitem w (PStr s) = (Inl (raised f), w\<lparr>calls := Suc (calls w)\<rparr>)"
  by (simp add: database_getitem_def document_exists_def Document_def request_def)

lemma getitem_absent:
  "map_of (cache w) s = None \<Longrightarrow> s \<noteq> [] \<Longrightarrow> faults w (calls w) = None \<Longrightarrow>
   map_of (docs w) s = None \<Longrightarrow>
   database_getitem w (PStr s) = (Inl KeyError, w\<lparr>calls := Suc (calls w)\<rparr>)"
  by (simp add: database_getitem_def document_exists_def Document_def request_def)

lemma getitem_fetched:
  "map_of (cache w) s = None \<Longrightarrow> s \<noteq> [] \<Longrightarrow> faults w (calls w) = None \<Longrightarrow>
   faults w (Suc (calls w)) = None \<Longrightarrow> map_of (docs w) s = Some d \<Longrightarrow>
   database_getitem w (PStr s) =
     (Inr \<lparr>doc_key = s, doc_fields = document_json s d\<rparr>,
      w\<lparr>calls := Suc (Suc (calls w)), cache := AList.update s (document_json s d) (cache w)\<rparr>)"
  by (simp add: database_getitem_def document_exists_def document_fetch_def Document_def
      request_def database_setitem_def)

lemma document_json_lookup:
  "map_of (document_json s d) k = (if k = ''_id'' then Some (PStr s) else map_of d k)"
  by (simp add: document_json_def dict_set_def update_conv')

lemma document_json_not_empty: "document_json s d \<noteq> []"
  by (cases d) (simp_all add: document_json_def dict_set_def)

lemma serialize_lookup:
  "map_of (serialize self) k =
     (if k = ''name'' then Some (name self)
      else if k = ''_id'' \<and> truthy (id_attr self) then Some (id_attr self) else None)"
  by (simp add: serialize_def dict_set_def Let_def)


lemma dict_update_not_empty: "d \<noteq> [] \<Longrightarrow> dict_update d data \<noteq> []"
  unfolding dict_update_def
proof (induction data arbitrary: d)
  case Nil
  then show ?case by simp
next
  case (Cons a data)
  obtain k v where a: "a = (k, v)" by (cases a)
  have "AList.update k v d \<noteq> []" using Cons.prems by (cases d) auto
  then show ?case using Cons.IH[of "AList.update k v d"] by (simp add: a dict_set_def)
qed

section \<open>Update and delete\<close>

lemma update_body_self: "fst (snd (update_body (self, w))) = self"
  by (simp split: prod.splits sum.splits)

lemma delete_body_self: "fst (snd (delete_body (self, w))) = self"
  by (simp split: prod.splits sum.splits)

lemma sleep_self_fst: "sleep_self d s = Inr s1 \<Longrightarrow> fst s1 = fst s"
  by (auto simp: sleep_self_def split: sum.splits)

lemma update_runs_body:
  "fst (update_body s) \<noteq> Inl HTTPError \<Longrightarrow> RETRY_COUNT cfg \<noteq> 0 \<Longrightarrow>
   update cfg s = Some (update_body s)"
  unfolding update_def retry_self_def by (rule retry_internal_passes) simp_all

lemma delete_runs_body:
  "fst (delete_body s) \<noteq> Inl HTTPError \<Longrightarrow> RETRY_COUNT cfg \<noteq> 0 \<Longrightarrow>
   delete cfg s = Some (delete_body s)"
  unfolding delete_def retry_self_def by (rule retry_internal_passes) simp_all

lemma update_self:
  assumes "update cfg (self, w) = Some (r, self', w')"
  shows "self' = self"
proof -
  have "fst (self', w') = self \<and> True"
  proof (rule retry_internal_invariant[where P = "\<lambda>s. fst s = self" and Q = "\<lambda>r. True",
        OF assms[unfolded update_def retry_self_def]])
    fix s r s1 assume "fst s = self" "Some (update_body s) = Some (r, s1)"
    then show "fst s1 = self \<and> True"
      using update_body_self[of "fst s" "snd s"] by (cases s) auto
  next
    fix d and s :: "base \<times> world" assume "fst s = self"
    then show "case sleep_self d s of Inl e \<Rightarrow> True | Inr s1 \<Rightarrow> fst s1 = self"
      using sleep_self_fst[of d s] by (auto split: sum.splits)
  qed simp_all
  then show ?thesis by simp
qed

lemma delete_self:
  assumes "delete cfg (self, w) = Some (r, self', w')"
  shows "self' = self"
proof -
  have "fst (self', w') = self \<and> True"
  proof (rule retry_internal_invariant[where P = "\<lambda>s. fst s = self" and Q = "\<lambda>r. True",
        OF assms[unfolded delete_def retry_self_def]])
    fix s r s1 assume "fst s = self" "Some (delete_body s) = Some (r, s1)"
    then show "fst s1 = self \<and> True"
      using delete_body_self[of "fst s" "snd s"] by (cases s) auto
  next
    fix d and s :: "base \<times> world" assume "fst s = self"
    then show "case sleep_self d s of Inl e \<Rightarrow> True | Inr s1 \<Rightarrow> fst s1 = self"
      using sleep_self_fst[of d s] by (auto split: sum.splits)
  qed simp_all
  then show ?thesis by simp
qed

text \<open>
  C10. \<open>update\<close> and \<open>delete\<close> never assign to the instance: whatever the client holds,
  whatever the service stores and however the call ends, the instance after a run of
  either body is the instance before it, and so it is when the decorated method returns
  or raises, for every retry setting.
\<close>

theorem update_delete_frame:
  "fst (snd (update_body (self, w))) = self
   \<and> fst (snd (delete_body (self, w))) = self
   \<and> (\<forall>r self' w'. update cfg (self, w) = Some (r, self', w') \<longrightarrow> self' = self)
   \<and> (\<forall>r self' w'. delete cfg (self, w) = Some (r, self', w') \<longrightarrow> self' = self)"
  using update_self delete_self
  by (auto simp: update_body_self delete_body_self
      simp del: update_body.simps delete_body.simps)

theorem update_delete_frame_witness:
  "update default_config (rex_saved, stocked_world) =
     Some (update_body (rex_saved, stocked_world))
   \<and> fst (update_body (rex_saved, stocked_world)) = Inr ()
   \<and> fst (snd (update_body (rex_saved, stocked_world))) = rex_saved
   \<and> delete default_config (rex, stocked_world) = Some (delete_body (rex, stocked_world))
   \<and> fst (delete_body (rex, stocked_world)) = Inl AttributeError
   \<and> fst (snd (delete_body (rex, stocked_world))) = rex"
proof -
  have u: "update default_config (rex_saved, stocked_world) =
             Some (update_body (rex_saved, stocked_world))"
    by (rule update_runs_body) (simp_all add: store_defs sample_defs dict_set_def serialize_def)
  have d: "delete default_config (rex, stocked_world) =
             Some (delete_body (rex, stocked_world))"
    by (rule delete_runs_body) (simp_all add: store_defs sample_defs)
  have ur: "fst (update_body (rex_saved, stocked_world)) = Inr ()"
    by (simp add: store_defs sample_defs dict_set_def serialize_def)
  have dr: "fst (delete_body (rex, stocked_world)) = Inl AttributeError"
    by (simp add: store_defs sample_defs)
  show ?thesis
    using update_delete_frame [of rex_saved stocked_world default_config]
          update_delete_frame [of rex stocked_world default_config] u d ur dr
    by simp
qed

section \<open>Find\<close>

lemma find_body_no_document:
  "database_getitem w k = (Inl KeyError, w1) \<Longrightarrow> find_body k w = (Inr None, w1)"
  by (simp add: find_body_def)

lemma find_body_no_rev:
  "database_getitem w k = (Inr d, w1) \<Longrightarrow> map_of (doc_fields d) ''_rev'' = None \<Longrightarrow>
   find_body k w = (Inr None, w1)"
  by (simp add: find_body_def)

lemma find_body_absent:
  "map_of (cache w) s = None \<Longrightarrow> s = [] \<or> faults w (calls w) = None \<and> map_of (docs w) s = None \<Longrightarrow>
   find_body (PStr s) w = (Inr None, if s = [] then w else w\<lparr>calls := Suc (calls w)\<rparr>)"
  by (auto simp: find_body_no_document getitem_no_id getitem_absent)

lemma find_body_held_no_rev:
  "map_of (cache w) s = Some flds \<Longrightarrow> map_of flds ''_rev'' = None \<Longrightarrow>
   find_body (PStr s) w = (Inr None, w)"
  by (rule find_body_no_rev[OF getitem_held]) simp_all

lemma find_body_fetched_no_rev:
  "map_of (cache w) s = None \<Longrightarrow> s \<noteq> [] \<Longrightarrow> faults w (calls w) = None \<Longrightarrow>
   faults w (Suc (calls w)) = None \<Longrightarrow> map_of (docs w) s = Some d \<Longrightarrow>
   map_of d ''_rev'' = None \<Longrightarrow>
   find_body (PStr s) w =
     (Inr None,
      w\<lparr>calls := Suc (Suc (calls w)), cache := AList.update s (document_json s d) (cache w)\<rparr>)"
  by (rule find_body_no_rev[OF getitem_fetched]) (simp_all add: document_json_lookup)

text \<open>
  Once \<open>delete\<close> has returned, the id is a string and the client holds no revision of a
  document for it: it holds nothing and the service has nothing, or it holds an object
  without \<^verbatim>\<open>_rev\<close>.
\<close>

lemma document_delete_leaves_shell:
  assumes "document_delete w d = (Inr (), w1)"
  shows "\<exists>flds. map_of (cache w1) (doc_key d) = Some flds \<and> map_of flds ''_rev'' = None"
  using assms
  by (auto simp: document_delete_def request_def database_setitem_def Document_def update_conv'
      split: if_splits option.splits prod.splits)

lemma delete_body_leaves_no_revision:
  assumes "delete_body (self, w) = (Inr (), self1, w1)"
  shows "\<exists>s. id_attr self = PStr s
          \<and> (map_of (cache w1) s = None \<and> s = []
             \<or> map_of (cache w1) s = None \<and> s \<noteq> [] \<and> map_of (docs w1) s = None
             \<or> (\<exists>flds. map_of (cache w1) s = Some flds \<and> map_of flds ''_rev'' = None))"
proof (cases "id_attr self")
  case (PStr s)
  show ?thesis
  proof (cases "map_of (cache w) s")
    case (Some flds)
    note g = getitem_held[OF Some]
    show ?thesis
    proof (cases "flds = []")
      case True
      with assms PStr g Some show ?thesis by auto
    next
      case False
      with assms PStr g have "document_delete w \<lparr>doc_key = s, doc_fields = flds\<rparr> = (Inr (), w1)"
        by (auto split: prod.splits sum.splits)
      from document_delete_leaves_shell[OF this] PStr show ?thesis by simp
    qed
  next
    case None
    show ?thesis
    proof (cases "s = []")
      case True
      with assms PStr None getitem_no_id[of w] show ?thesis by auto
    next
      case False
      show ?thesis
      proof (cases "faults w (calls w)")
        case (Some f)
        with assms PStr None False getitem_raises[of w s f] show ?thesis
          by (auto simp: raised_not_KeyError)
      next
        case N1: None
        show ?thesis
        proof (cases "map_of (docs w) s")
          case N2: None
          with assms PStr None False N1 getitem_absent[of w s] show ?thesis by auto
        next
          case S2: (Some d)
          show ?thesis
          proof (cases "faults w (Suc (calls w))")
            case (Some f)
            with assms PStr None False N1 S2 show ?thesis
              by (auto simp: database_getitem_def document_exists_def document_fetch_def
                  Document_def request_def raised_not_KeyError)
          next
            case N3: None
            let ?w2 = "w\<lparr>calls := Suc (Suc (calls w)),
                          cache := AList.update s (document_json s d) (cache w)\<rparr>"
            from assms PStr getitem_fetched[OF None False N1 N3 S2]
            have "document_delete ?w2 \<lparr>doc_key = s, doc_fields = document_json s d\<rparr> = (Inr (), w1)"
              by (auto simp: document_json_not_empty split: prod.splits sum.splits)
            from document_delete_leaves_shell[OF this] PStr show ?thesis by simp
          qed
        qed
      qed
    qed
  qed
qed (use assms in \<open>simp_all add: database_getitem_def\<close>)

lemma find_runs_body:
  "fst (find_body k w) \<noteq> Inl HTTPError \<Longrightarrow> RETRY_COUNT cfg \<noteq> 0 \<Longrightarrow>
   find_record cfg k w = Some (find_body k w)"
  unfolding find_record_def retry_def by (rule retry_internal_passes) simp_all

text \<open>
  C4. When \<^verbatim>\<open>database[record_id]\<close> yields no document (KeyError), or yields a document
  that has no \<^verbatim>\<open>_rev\<close>, \<open>find\<close> returns \<^verbatim>\<open>None\<close>, not a record. For a string id that is so
  when the client holds no document for the id and the service, asked, has none (an
  empty id is not even asked for); when the client holds an object without \<^verbatim>\<open>_rev\<close>, the
  shell that \<^verbatim>\<open>delete\<close> leaves; and when the service answers with a document without
  \<^verbatim>\<open>_rev\<close>. In particular, once \<open>delete\<close> has returned normally for a record, a \<open>find\<close>
  of that record's id returns \<^verbatim>\<open>None\<close>: from the shell without a request, or after the one
  request that the service answers when the client holds nothing. The decorated \<open>find\<close>
  returns what its body returns.
\<close>

theorem find_missing_revision:
  "(database_getitem w k = (Inl KeyError, w1) \<longrightarrow> find_body k w = (Inr None, w1))
   \<and> (database_getitem w k = (Inr doc, w1) \<and> map_of (doc_fields doc) ''_rev'' = None \<longrightarrow>
      find_body k w = (Inr None, w1))
   \<and> (map_of (cache w) s = None
       \<and> (s = [] \<or> faults w (calls w) = None \<and> map_of (docs w) s = None) \<longrightarrow>
      find_body (PStr s) w = (Inr None, if s = [] then w else w\<lparr>calls := Suc (calls w)\<rparr>))
   \<and> (map_of (cache w) s = Some flds \<and> map_of flds ''_rev'' = None \<longrightarrow>
      find_body (PStr s) w = (Inr None, w))
   \<and> (map_of (cache w) s = None \<and> s \<noteq> [] \<and> faults w (calls w) = None
       \<and> faults w (Suc (calls w)) = None \<and> map_of (docs w) s = Some d
       \<and> map_of d ''_rev'' = None \<longrightarrow>
      find_body (PStr s) w =
        (Inr None,
         w\<lparr>calls := Suc (Suc (calls w)), cache := AList.update s (document_json s d) (cache w)\<rparr>))
   \<and> (delete_body (self, w) = (Inr (), self1, w2) \<and> faults w2 (calls w2) = None \<longrightarrow>
      (\<exists>s. id_attr self = PStr s
          \<and> find_body (id_attr self) w2 =
              (Inr None,
               if s = [] \<or> map_of (cache w2) s \<noteq> None then w2
               else w2\<lparr>calls := Suc (calls w2)\<rparr>)))
   \<and> (RETRY_COUNT cfg \<noteq> 0 \<and> fst (find_body k w) \<noteq> Inl HTTPError \<longrightarrow>
      find_record cfg k w = Some (find_body k w))"
proof (intro conjI impI)
  assume "delete_body (self, w) = (Inr (), self1, w2) \<and> faults w2 (calls w2) = None"
  then have d: "delete_body (self, w) = (Inr (), self1, w2)" and f: "faults w2 (calls w2) = None"
    by simp_all
  from delete_body_leaves_no_revision[OF d] obtain s where s: "id_attr self = PStr s"
    and c: "map_of (cache w2) s = None \<and> s = []
             \<or> map_of (cache w2) s = None \<and> s \<noteq> [] \<and> map_of (docs w2) s = None
             \<or> (\<exists>flds. map_of (cache w2) s = Some flds \<and> map_of flds ''_rev'' = None)"
    by blast
  have "find_body (PStr s) w2 =
          (Inr None,
           if s = [] \<or> map_of (cache w2) s \<noteq> None then w2 else w2\<lparr>calls := Suc (calls w2)\<rparr>)"
    using c f find_body_absent[of w2 s] find_body_held_no_rev[of w2 s] by auto
  with s show "\<exists>s. id_attr self = PStr s
          \<and> find_body (id_attr self) w2 =
              (Inr None,
               if s = [] \<or> map_of (cache w2) s \<noteq> None then w2
               else w2\<lparr>calls := Suc (calls w2)\<rparr>)"
    by simp
qed (simp_all add: find_body_no_document find_body_no_rev find_body_absent
      find_body_held_no_rev find_body_fetched_no_rev find_runs_body)

theorem find_missing_revision_witness:
  "find_record default_config (PStr ''p9'') stocked_world =
     Some (Inr None, stocked_world\<lparr>calls := 1\<rparr>)
   \<and> database_getitem stocked_world (PStr ''p9'') = (Inl KeyError, stocked_world\<lparr>calls := 1\<rparr>)
   \<and> delete_body (rex_saved, stocked_world) = (Inr (), rex_saved, deleted_world)
   \<and> database_getitem deleted_world (PStr ''p1'') =
       (Inr \<lparr>doc_key = ''p1'', doc_fields = [(''_id'', PStr ''p1'')]\<rparr>, deleted_world)
   \<and> find_record default_config (PStr ''p1'') deleted_world = Some (Inr None, deleted_world)
   \<and> find_record default_config (PStr ''p2'')
        (empty_world\<lparr>docs := [(''p2'', [(''name'', PStr ''Tom'')])]\<rparr>) =
       Some (Inr None,
             empty_world\<lparr>docs := [(''p2'', [(''name'', PStr ''Tom'')])], calls := 2,
               cache := [(''p2'', [(''name'', PStr ''Tom''), (''_id'', PStr ''p2'')])]\<rparr>)
   \<and> find_record default_config (PStr ''p1'') stocked_world =
       Some (Inr (Some \<lparr>id_attr = PStr ''p1'', name = PStr ''Max''\<rparr>),
             stocked_world\<lparr>calls := 2, cache := [(''p1'', max_fields)]\<rparr>)"
  using find_missing_revision [where w = stocked_world and k = "PStr ''p9''" and s = "''p9''"
          and self = rex_saved and ?self1.0 = rex_saved and cfg = default_config
          and ?w2.0 = deleted_world
          and ?w1.0 = "stocked_world\<lparr>calls := 1\<rparr>" and doc = "Document []" and d = "[]"
          and flds = "[]"]
        find_missing_revision [where w = deleted_world
          and k = "PStr ''p1''" and s = "''p1''"
          and self = rex_saved and ?self1.0 = rex_saved and cfg = default_config
          and ?w2.0 = deleted_world and ?w1.0 = deleted_world
          and doc = "\<lparr>doc_key = ''p1'', doc_fields = [(''_id'', PStr ''p1'')]\<rparr>" and d = "[]"
          and flds = "[(''_id'', PStr ''p1'')]"]
        find_missing_revision [where
          w = "empty_world\<lparr>docs := [(''p2'', [(''name'', PStr ''Tom'')])]\<rparr>"
          and k = "PStr ''p2''" and s = "''p2''"
          and self = rex_saved and ?self1.0 = rex_saved and cfg = default_config
          and ?w2.0 = deleted_world and ?w1.0 = deleted_world
          and doc = "Document []" and d = "[(''name'', PStr ''Tom'')]" and flds = "[]"]
        find_missing_revision [where w = stocked_world and k = "PStr ''p1''" and s = "''p1''"
          and self = rex_saved and ?self1.0 = rex_saved and cfg = default_config
          and ?w2.0 = deleted_world
          and ?w1.0 = "stocked_world\<lparr>calls := 1\<rparr>" and doc = "Document []" and d = "[]"
          and flds = "[]"]
  by (simp add: store_defs sample_defs find_body_def deserialize_def Base_def dict_set_def)

section \<open>Create\<close>

lemma create_body_nameless:
  "name self = PNone \<Longrightarrow>
   create_body (self, w) = (Inl (DataValidationError ''name attribute is not set''), self, w)"
  by simp

lemma create_document_not_validation:
  "fst (create_document w data) \<noteq> Inl (DataValidationError msg)"
  by (auto simp: create_document_def document_create_def request_def raised_not_validation Let_def
      split: prod.splits sum.splits option.splits posted.splits if_splits pyval.splits)

lemma document_exists_not_validation:
  "fst (document_exists w d) \<noteq> Inl (DataValidationError msg)"
  by (auto simp: document_exists_def request_def raised_not_validation
      split: prod.splits option.splits)

lemma create_body_named:
  assumes "name self \<noteq> PNone"
  shows "fst (create_body (self, w)) \<noteq> Inl (DataValidationError msg)"
    and "name (fst (snd (create_body (self, w)))) \<noteq> PNone"
proof -
  show "fst (create_body (self, w)) \<noteq> Inl (DataValidationError msg)"
    using assms create_document_not_validation[of w "serialize self" msg]
  proof (cases "create_document w (serialize self)")
    case (Pair r w1)
    show ?thesis
    proof (cases r)
      case (Inl e)
      with Pair assms create_document_not_validation[of w "serialize self" msg]
      show ?thesis by auto
    next
      case (Inr document)
      with Pair assms document_exists_not_validation[of w1 document msg]
      show ?thesis
        by (auto split: prod.splits sum.splits bool.splits option.splits)
    qed
  qed
  show "name (fst (snd (create_body (self, w)))) \<noteq> PNone"
    using assms by (auto split: prod.splits sum.splits bool.splits option.splits)
qed

lemma create_runs_body:
  "fst (create_body s) \<noteq> Inl HTTPError \<Longrightarrow> RETRY_COUNT cfg \<noteq> 0 \<Longrightarrow>
   create cfg s = Some (create_body s)"
  unfolding create_def retry_self_def by (rule retry_internal_passes) simp_all

lemma sleep_self_not_validation: "sleep_self d s \<noteq> Inl (DataValidationError msg)"
  by (simp add: sleep_self_def time_sleep_def split: sum.splits)

lemma create_named:
  assumes "create cfg (self, w) = Some (r, s')" and "name self \<noteq> PNone"
  shows "r \<noteq> Inl (DataValidationError msg)"
proof -
  have "name (fst s') \<noteq> PNone \<and> (\<forall>msg. r \<noteq> Inl (DataValidationError msg))"
  proof (rule retry_internal_invariant[where P = "\<lambda>s. name (fst s) \<noteq> PNone"
        and Q = "\<lambda>r. \<forall>msg. r \<noteq> Inl (DataValidationError msg)",
        OF assms(1)[unfolded create_def retry_self_def]])
    fix s r s1 assume "name (fst s) \<noteq> PNone" "Some (create_body s) = Some (r, s1)"
    then show "name (fst s1) \<noteq> PNone \<and> (\<forall>msg. r \<noteq> Inl (DataValidationError msg))"
      using create_body_named[of "fst s" "snd s"] by (cases s) (auto simp del: create_body.simps)
  next
    fix d and s :: "base \<times> world" assume "name (fst s) \<noteq> PNone"
    then show "case sleep_self d s of
                 Inl e \<Rightarrow> \<forall>msg. Inl e \<noteq> (Inl (DataValidationError msg) :: error + unit)
               | Inr s1 \<Rightarrow> name (fst s1) \<noteq> PNone"
      using sleep_self_fst[of d s] sleep_self_not_validation[of d s]
      by (auto split: sum.splits)
  qed (use assms(2) in simp_all)
  then show ?thesis by simp
qed

text \<open>
  C8 as stated fails when the module was loaded with \<^verbatim>\<open>RETRY_COUNT=0\<close>: the decorator
  then never runs the body, and \<open>create\<close> on a record without a name returns \<^verbatim>\<open>None\<close> and
  raises nothing.
\<close>

theorem create_nameless_not_run:
  "name nameless = PNone \<and> RETRY_COUNT no_retry = 0
   \<and> create no_retry (nameless, empty_world) = Some (Inr (), nameless, empty_world)"
  by (simp add: create_def retry_self_def retry_internal_zero no_retry_def nameless_def)

text \<open>
  C8, as the code has it. With \<^verbatim>\<open>name\<close> equal to \<^verbatim>\<open>None\<close>, the body of \<open>create\<close> raises
  DataValidationError and leaves the instance and the world as they were: the id stays
  unset and no request is sent. The decorated method hands that error on whenever it
  runs the body, which is for every \<open>RETRY_COUNT\<close> other than 0. With a name set, neither
  the body nor the decorated method ends in a DataValidationError, for any retry setting.
\<close>

theorem create_requires_name:
  "(name self = PNone \<longrightarrow>
      create_body (self, w) =
        (Inl (DataValidationError ''name attribute is not set''), self, w)
      \<and> (RETRY_COUNT cfg \<noteq> 0 \<longrightarrow>
           create cfg (self, w) =
             Some (Inl (DataValidationError ''name attribute is not set''), self, w)))
   \<and> (name self \<noteq> PNone \<longrightarrow>
      (\<forall>msg. fst (create_body (self, w)) \<noteq> Inl (DataValidationError msg))
      \<and> (\<forall>r s' msg. create cfg (self, w) = Some (r, s') \<longrightarrow>
            r \<noteq> Inl (DataValidationError msg)))"
proof (intro conjI impI allI)
  assume n: "name self = PNone"
  then show b: "create_body (self, w) =
        (Inl (DataValidationError ''name attribute is not set''), self, w)"
    by simp
  assume "RETRY_COUNT cfg \<noteq> 0"
  then show "create cfg (self, w) =
             Some (Inl (DataValidationError ''name attribute is not set''), self, w)"
    using create_runs_body[of "(self, w)" cfg] n by simp
next
  fix msg assume "name self \<noteq> PNone"
  then show "fst (create_body (self, w)) \<noteq> Inl (DataValidationError msg)"
    by (rule create_body_named)
next
  fix r s' msg
  assume "name self \<noteq> PNone" "create cfg (self, w) = Some (r, s')"
  then show "r \<noteq> Inl (DataValidationError msg)"
    using create_named by blast
qed

theorem create_requires_name_witness:
  "name nameless = PNone
   \<and> create default_config (nameless, empty_world) =
       Some (Inl (DataValidationError ''name attribute is not set''), nameless, empty_world)
   \<and> id_attr nameless = PNone \<and> calls empty_world = 0
   \<and> create default_config (rex, empty_world) =
       Some (Inr (), \<lparr>id_attr = PStr ''doc-a'', name = PStr ''Rex''\<rparr>,
             empty_world\<lparr>calls := 2,
               docs := [(''doc-a'', [(''name'', PStr ''Rex''), (''_id'', PStr ''doc-a''),
                                     (''_rev'', PStr ''1-r'')])],
               cache := [(''doc-a'', [(''name'', PStr ''Rex''), (''_id'', PStr ''doc-a''),
                                      (''_rev'', PStr ''1-r'')])]\<rparr>)"
proof -
  have c: "create default_config (rex, empty_world) = Some (create_body (rex, empty_world))"
    by (rule create_runs_body)
       (simp_all add: store_defs sample_defs serialize_def dict_set_def Let_def)
  show ?thesis
    using create_requires_name [of nameless empty_world default_config]
          create_requires_name [of rex empty_world default_config] c
    by (simp add: store_defs sample_defs serialize_def dict_set_def Let_def)
qed

section \<open>What update and delete do to the documents\<close>













section \<open>Exhausted retries\<close>

text \<open>
  A method whose every run fails with HTTPError after one request, in every world of an
  invariant \<open>J\<close> that does not depend on the log and on the sleeps: with \<open>RETRY_COUNT \<ge> 1\<close>
  and waits that \<^verbatim>\<open>time.sleep\<close> accepts, the decorated method raises HTTPError after
  \<open>RETRY_COUNT\<close> requests, with the documents of the service as before and the waits
  slept in between.
\<close>

lemma waits_sleepable:
  "RETRY_COUNT cfg = int (Suc n) \<Longrightarrow> list_all sleepable (waits cfg) \<Longrightarrow>
   \<forall>i<n. sleepable (RETRY_DELAY cfg * RETRY_BACKOFF cfg ^ i)"
  by (simp add: waits_def list_all_iff)

lemma waits_count:
  "RETRY_COUNT cfg = int (Suc n) \<Longrightarrow>
   waits cfg = map (\<lambda>i. RETRY_DELAY cfg * RETRY_BACKOFF cfg ^ i) [0..<n]"
  by (simp add: waits_def)

lemma time_sleep_sleepable:
  "sleepable d \<Longrightarrow> time_sleep d w = Inr (w\<lparr>slept := slept w @ [d]\<rparr>)"
  by (auto simp: time_sleep_def sleepable_def)

lemma retry_exhausts:
  assumes run: "\<And>w'. J w' \<Longrightarrow>
                  \<exists>w1. f w' = Some (Inl HTTPError, w1) \<and> J w1 \<and> calls w1 = Suc (calls w')
                       \<and> docs w1 = docs w' \<and> slept w1 = slept w'"
    and logs: "\<And>w' ws. J w' \<Longrightarrow> J (w'\<lparr>warnings := ws\<rparr>)"
    and sleeps: "\<And>w' ds. J w' \<Longrightarrow> J (w'\<lparr>slept := ds\<rparr>)"
    and init: "J w" and tries: "1 \<le> RETRY_COUNT cfg" and ok: "list_all sleepable (waits cfg)"
  shows "\<exists>w'. retry cfg f none w = Some (Inl HTTPError, w')
              \<and> calls w' = calls w + nat (RETRY_COUNT cfg) \<and> docs w' = docs w
              \<and> slept w' = slept w @ waits cfg"
proof -
  from positive_int_Suc[OF tries] obtain n where n: "RETRY_COUNT cfg = int (Suc n)" by blast
  have "\<exists>w'. retry_internal f none retry_warning time_sleep (int (Suc n))
                (RETRY_DELAY cfg) (RETRY_BACKOFF cfg) w = Some (Inl HTTPError, w')
             \<and> (J w' \<and> docs w' = docs w) \<and> calls w' = calls w + Suc n * 1
             \<and> slept w' = slept w @ map (\<lambda>i. RETRY_DELAY cfg * RETRY_BACKOFF cfg ^ i) [0..<n]"
  proof (rule retry_internal_exhausts[where I = "\<lambda>w'. J w' \<and> docs w' = docs w"
        and cnt = calls and tr = slept and ok = sleepable])
    fix w' assume "J w' \<and> docs w' = docs w"
    with run[of w'] show "\<exists>w1. f w' = Some (Inl HTTPError, w1) \<and> (J w1 \<and> docs w1 = docs w)
                            \<and> calls w1 = calls w' + 1 \<and> slept w1 = slept w'"
      by auto
  next
    fix w' assume "J w' \<and> docs w' = docs w"
    with logs[of w'] show "(J (retry_warning w') \<and> docs (retry_warning w') = docs w)
        \<and> calls (retry_warning w') = calls w' \<and> slept (retry_warning w') = slept w'"
      by (simp add: retry_warning_def logger_warning_def)
  next
    fix w' d assume "J w' \<and> docs w' = docs w" "sleepable d"
    with sleeps[of w'] show "\<exists>w1. time_sleep d w' = Inr w1 \<and> (J w1 \<and> docs w1 = docs w)
        \<and> calls w1 = calls w' \<and> slept w1 = slept w' @ [d]"
      by (simp add: time_sleep_sleepable)
  next
    show "J w \<and> docs w = docs w" using init by simp
    show "\<forall>i<n. sleepable (RETRY_DELAY cfg * RETRY_BACKOFF cfg ^ i)"
      using n ok by (rule waits_sleepable)
  qed
  then show ?thesis
    unfolding retry_def n waits_count[OF n] by auto
qed

lemma retry_self_exhausts:
  assumes run: "\<And>w'. J w' \<Longrightarrow>
                  \<exists>w1. f (self, w') = Some (Inl HTTPError, self, w1) \<and> J w1
                       \<and> calls w1 = Suc (calls w') \<and> docs w1 = docs w' \<and> slept w1 = slept w'"
    and logs: "\<And>w' ws. J w' \<Longrightarrow> J (w'\<lparr>warnings := ws\<rparr>)"
    and sleeps: "\<And>w' ds. J w' \<Longrightarrow> J (w'\<lparr>slept := ds\<rparr>)"
    and init: "J w" and tries: "1 \<le> RETRY_COUNT cfg" and ok: "list_all sleepable (waits cfg)"
  shows "\<exists>w'. retry_self cfg f none (self, w) = Some (Inl HTTPError, self, w')
              \<and> calls w' = calls w + nat (RETRY_COUNT cfg) \<and> docs w' = docs w
              \<and> slept w' = slept w @ waits cfg"
proof -
  from positive_int_Suc[OF tries] obtain n where n: "RETRY_COUNT cfg = int (Suc n)" by blast
  have "\<exists>s'. retry_internal f none (apsnd retry_warning) sleep_self (int (Suc n))
                (RETRY_DELAY cfg) (RETRY_BACKOFF cfg) (self, w) = Some (Inl HTTPError, s')
             \<and> (fst s' = self \<and> J (snd s') \<and> docs (snd s') = docs w)
             \<and> calls (snd s') = calls (snd (self, w)) + Suc n * 1
             \<and> slept (snd s') = slept (snd (self, w))
                  @ map (\<lambda>i. RETRY_DELAY cfg * RETRY_BACKOFF cfg ^ i) [0..<n]"
  proof (rule retry_internal_exhausts[where
        I = "\<lambda>s. fst s = self \<and> J (snd s) \<and> docs (snd s) = docs w"
        and cnt = "\<lambda>s. calls (snd s)" and tr = "\<lambda>s. slept (snd s)" and ok = sleepable])
    fix s :: "base \<times> world" assume "fst s = self \<and> J (snd s) \<and> docs (snd s) = docs w"
    with run[of "snd s"]
    show "\<exists>s1. f s = Some (Inl HTTPError, s1)
              \<and> (fst s1 = self \<and> J (snd s1) \<and> docs (snd s1) = docs w)
              \<and> calls (snd s1) = calls (snd s) + 1 \<and> slept (snd s1) = slept (snd s)"
      by (cases s) auto
  next
    fix s :: "base \<times> world" assume "fst s = self \<and> J (snd s) \<and> docs (snd s) = docs w"
    with logs[of "snd s"]
    show "(fst (apsnd retry_warning s) = self \<and> J (snd (apsnd retry_warning s))
            \<and> docs (snd (apsnd retry_warning s)) = docs w)
          \<and> calls (snd (apsnd retry_warning s)) = calls (snd s)
          \<and> slept (snd (apsnd retry_warning s)) = slept (snd s)"
      by (cases s) (simp add: retry_warning_def logger_warning_def)
  next
    fix s :: "base \<times> world" and d
    assume "fst s = self \<and> J (snd s) \<and> docs (snd s) = docs w" "sleepable d"
    with sleeps[of "snd s"]
    show "\<exists>s1. sleep_self d s = Inr s1
              \<and> (fst s1 = self \<and> J (snd s1) \<and> docs (snd s1) = docs w)
              \<and> calls (snd s1) = calls (snd s) \<and> slept (snd s1) = slept (snd s) @ [d]"
      by (cases s) (simp add: sleep_self_def time_sleep_sleepable)
  next
    show "fst (self, w) = self \<and> J (snd (self, w)) \<and> docs (snd (self, w)) = docs w"
      using init by simp
    show "\<forall>i<n. sleepable (RETRY_DELAY cfg * RETRY_BACKOFF cfg ^ i)"
      using n ok by (rule waits_sleepable)
  qed
  then show ?thesis
    unfolding retry_self_def n waits_count[OF n] by auto
qed

text \<open>What each body does in a world whose every request from now on raises HTTPError.\<close>

lemma find_body_transient:
  "map_of (cache w) s = None \<Longrightarrow> s \<noteq> [] \<Longrightarrow> faults w (calls w) = Some Transient \<Longrightarrow>
   find_body (PStr s) w = (Inl HTTPError, w\<lparr>calls := Suc (calls w)\<rparr>)"
  using getitem_raises[of w s Transient] by (simp add: find_body_def)

lemma update_body_transient:
  assumes "id_attr self = PStr s" and "s \<noteq> []" and "map_of (cache w) s \<noteq> Some []"
    and "faults w (calls w) = Some Transient"
  shows "\<exists>w1. update_body (self, w) = (Inl HTTPError, self, w1) \<and> calls w1 = Suc (calls w)
              \<and> docs w1 = docs w \<and> slept w1 = slept w \<and> faults w1 = faults w
              \<and> map_of (cache w1) s \<noteq> Some []"
proof (cases "map_of (cache w) s")
  case None
  then show ?thesis
    using assms getitem_raises[of w s Transient] by simp
next
  case (Some flds)
  with assms have ne: "flds \<noteq> []" by simp
  have m: "dict_update flds (serialize self) \<noteq> []"
    using ne by (rule dict_update_not_empty)
  show ?thesis
    using assms Some ne m
    by (simp add: getitem_held document_update_def document_save_def document_exists_def
        database_setitem_def request_def update_conv' Let_def)
qed

lemma delete_body_transient:
  assumes "id_attr self = PStr s" and "s \<noteq> []"
    and "map_of (cache w) s = None
         \<or> (\<exists>flds r. map_of (cache w) s = Some flds \<and> map_of flds ''_rev'' = Some r \<and> truthy r)"
    and "faults w (calls w) = Some Transient"
  shows "delete_body (self, w) = (Inl HTTPError, self, w\<lparr>calls := Suc (calls w)\<rparr>)"
proof (cases "map_of (cache w) s")
  case None
  then show ?thesis
    using assms getitem_raises[of w s Transient] by simp
next
  case (Some flds)
  with assms(3) obtain r where r: "map_of flds ''_rev'' = Some r" "truthy r" by auto
  then have "flds \<noteq> []" by auto
  then show ?thesis
    using assms Some r
    by (simp add: getitem_held document_delete_def request_def)
qed

lemma find_by_body_transient:
  "kwargs \<noteq> [] \<Longrightarrow> faults w (calls w) = Some Transient \<Longrightarrow>
   find_by_body kwargs w = (Inl HTTPError, w\<lparr>calls := Suc (calls w)\<rparr>)"
  by (simp add: find_by_body_def query_result_def request_def)

lemma all_body_transient:
  "faults w (calls w) = Some Transient \<Longrightarrow>
   all_body w = (Inl HTTPError, w\<lparr>calls := Suc (calls w)\<rparr>)"
  by (simp add: all_body_def database_iter_def request_def)

lemma remove_all_body_transient:
  "faults w (calls w) = Some Transient \<Longrightarrow>
   remove_all_body w = (Inl HTTPError, w\<lparr>calls := Suc (calls w)\<rparr>)"
  by (simp add: remove_all_body_def database_iter_def request_def)

lemma create_query_index_body_transient:
  "faults w (calls w) = Some Transient \<Longrightarrow>
   create_query_index_body field_name order w = (Inl HTTPError, w\<lparr>calls := Suc (calls w)\<rparr>)"
  by (simp add: create_query_index_body_def database_create_query_index_def request_def)

text \<open>The decorated operations on such a world.\<close>

lemma update_exhausts:
  assumes "1 \<le> RETRY_COUNT cfg" and "list_all sleepable (waits cfg)"
    and "\<forall>i. calls w \<le> i \<longrightarrow> faults w i = Some Transient"
    and "id_attr self = PStr s" and "s \<noteq> []" and "map_of (cache w) s \<noteq> Some []"
  shows "\<exists>w'. update cfg (self, w) = Some (Inl HTTPError, self, w')
              \<and> calls w' = calls w + nat (RETRY_COUNT cfg) \<and> docs w' = docs w
              \<and> slept w' = slept w @ waits cfg"
  unfolding update_def
proof (rule retry_self_exhausts[where
      J = "\<lambda>w'. (\<forall>i. calls w' \<le> i \<longrightarrow> faults w' i = Some Transient)
                 \<and> map_of (cache w') s \<noteq> Some []"])
  fix w' :: world
  assume J: "(\<forall>i. calls w' \<le> i \<longrightarrow> faults w' i = Some Transient)
                    \<and> map_of (cache w') s \<noteq> Some []"
  then have f: "faults w' (calls w') = Some Transient" and c: "map_of (cache w') s \<noteq> Some []"
    by simp_all
  from update_body_transient[OF assms(4,5) c f] obtain w1
    where "update_body (self, w') = (Inl HTTPError, self, w1)" "calls w1 = Suc (calls w')"
      "docs w1 = docs w'" "slept w1 = slept w'" "faults w1 = faults w'"
      "map_of (cache w1) s \<noteq> Some []" by blast
  with J show "\<exists>w1. Some (update_body (self, w')) = Some (Inl HTTPError, self, w1)
         \<and> ((\<forall>i. calls w1 \<le> i \<longrightarrow> faults w1 i = Some Transient)
            \<and> map_of (cache w1) s \<noteq> Some [])
         \<and> calls w1 = Suc (calls w') \<and> docs w1 = docs w' \<and> slept w1 = slept w'"
    by (auto simp del: update_body.simps)
qed (use assms in simp_all)

lemma delete_exhausts:
  assumes "1 \<le> RETRY_COUNT cfg" and "list_all sleepable (waits cfg)"
    and "\<forall>i. calls w \<le> i \<longrightarrow> faults w i = Some Transient"
    and "id_attr self = PStr s" and "s \<noteq> []"
    and "map_of (cache w) s = None
         \<or> (\<exists>flds r. map_of (cache w) s = Some flds \<and> map_of flds ''_rev'' = Some r \<and> truthy r)"
  shows "\<exists>w'. delete cfg (self, w) = Some (Inl HTTPError, self, w')
              \<and> calls w' = calls w + nat (RETRY_COUNT cfg) \<and> docs w' = docs w
              \<and> slept w' = slept w @ waits cfg"
  unfolding delete_def
proof (rule retry_self_exhausts[where
      J = "\<lambda>w'. (\<forall>i. calls w' \<le> i \<longrightarrow> faults w' i = Some Transient)
                 \<and> cache w' = cache w"])
  fix w' :: world
  assume J: "(\<forall>i. calls w' \<le> i \<longrightarrow> faults w' i = Some Transient) \<and> cache w' = cache w"
  then have f: "faults w' (calls w') = Some Transient" by simp
  have "delete_body (self, w') = (Inl HTTPError, self, w'\<lparr>calls := Suc (calls w')\<rparr>)"
    by (rule delete_body_transient[OF assms(4,5) _ f]) (use J assms(6) in simp)
  with J show "\<exists>w1. Some (delete_body (self, w')) = Some (Inl HTTPError, self, w1)
         \<and> ((\<forall>i. calls w1 \<le> i \<longrightarrow> faults w1 i = Some Transient) \<and> cache w1 = cache w)
         \<and> calls w1 = Suc (calls w') \<and> docs w1 = docs w' \<and> slept w1 = slept w'"
    by (auto simp del: delete_body.simps)
qed (use assms in simp_all)

lemma find_record_exhausts:
  assumes "1 \<le> RETRY_COUNT cfg" and "list_all sleepable (waits cfg)"
    and "\<forall>i. calls w \<le> i \<longrightarrow> faults w i = Some Transient"
    and "s \<noteq> []" and "map_of (cache w) s = None"
  shows "\<exists>w'. find_record cfg (PStr s) w = Some (Inl HTTPError, w')
              \<and> calls w' = calls w + nat (RETRY_COUNT cfg) \<and> docs w' = docs w
              \<and> slept w' = slept w @ waits cfg"
  unfolding find_record_def
proof (rule retry_exhausts[where
      J = "\<lambda>w'. (\<forall>i. calls w' \<le> i \<longrightarrow> faults w' i = Some Transient)
                 \<and> cache w' = cache w"])
  fix w' :: world
  assume J: "(\<forall>i. calls w' \<le> i \<longrightarrow> faults w' i = Some Transient) \<and> cache w' = cache w"
  then have f: "faults w' (calls w') = Some Transient" by simp
  have "find_body (PStr s) w' = (Inl HTTPError, w'\<lparr>calls := Suc (calls w')\<rparr>)"
    by (rule find_body_transient[OF _ assms(4) f]) (use J assms(5) in simp)
  with J show "\<exists>w1. Some (find_body (PStr s) w') = Some (Inl HTTPError, w1)
         \<and> ((\<forall>i. calls w1 \<le> i \<longrightarrow> faults w1 i = Some Transient) \<and> cache w1 = cache w)
         \<and> calls w1 = Suc (calls w') \<and> docs w1 = docs w' \<and> slept w1 = slept w'"
    by auto
qed (use assms in simp_all)

lemma world_exhausts:
  assumes "1 \<le> RETRY_COUNT cfg" and "list_all sleepable (waits cfg)"
    and "\<forall>i. calls w \<le> i \<longrightarrow> faults w i = Some Transient"
    and body: "\<And>w'. faults w' (calls w') = Some Transient \<Longrightarrow>
                  f w' = (Inl HTTPError, w'\<lparr>calls := Suc (calls w')\<rparr>)"
  shows "\<exists>w'. retry cfg (\<lambda>w. Some (f w)) none w = Some (Inl HTTPError, w')
              \<and> calls w' = calls w + nat (RETRY_COUNT cfg) \<and> docs w' = docs w
              \<and> slept w' = slept w @ waits cfg"
proof (rule retry_exhausts[where
      J = "\<lambda>w'. \<forall>i. calls w' \<le> i \<longrightarrow> faults w' i = Some Transient"])
  fix w' :: world assume J: "\<forall>i. calls w' \<le> i \<longrightarrow> faults w' i = Some Transient"
  then have "faults w' (calls w') = Some Transient" by simp
  from body[OF this] J
  show "\<exists>w1. Some (f w') = Some (Inl HTTPError, w1)
         \<and> (\<forall>i. calls w1 \<le> i \<longrightarrow> faults w1 i = Some Transient)
         \<and> calls w1 = Suc (calls w') \<and> docs w1 = docs w' \<and> slept w1 = slept w'"
    by auto
qed (use assms(1,2,3) in simp_all)

lemma find_by_exhausts:
  assumes "1 \<le> RETRY_COUNT cfg" and "list_all sleepable (waits cfg)"
    and "\<forall>i. calls w \<le> i \<longrightarrow> faults w i = Some Transient" and "kwargs \<noteq> []"
  shows "\<exists>w'. find_by cfg kwargs w = Some (Inl HTTPError, w')
              \<and> calls w' = calls w + nat (RETRY_COUNT cfg) \<and> docs w' = docs w
              \<and> slept w' = slept w @ waits cfg"
  unfolding find_by_def
  by (rule world_exhausts[OF assms(1,2,3)]) (rule find_by_body_transient[OF assms(4)])

lemma all_records_exhausts:
  assumes "1 \<le> RETRY_COUNT cfg" and "list_all sleepable (waits cfg)"
    and "\<forall>i. calls w \<le> i \<longrightarrow> faults w i = Some Transient"
  shows "\<exists>w'. all_records cfg w = Some (Inl HTTPError, w')
              \<and> calls w' = calls w + nat (RETRY_COUNT cfg) \<and> docs w' = docs w
              \<and> slept w' = slept w @ waits cfg"
  unfolding all_records_def
  by (rule world_exhausts[OF assms]) (rule all_body_transient)

lemma remove_all_exhausts:
  assumes "1 \<le> RETRY_COUNT cfg" and "list_all sleepable (waits cfg)"
    and "\<forall>i. calls w \<le> i \<longrightarrow> faults w i = Some Transient"
  shows "\<exists>w'. remove_all cfg w = Some (Inl HTTPError, w')
              \<and> calls w' = calls w + nat (RETRY_COUNT cfg) \<and> docs w' = docs w
              \<and> slept w' = slept w @ waits cfg"
  unfolding remove_all_def
  by (rule world_exhausts[OF assms]) (rule remove_all_body_transient)

lemma create_query_index_exhausts:
  assumes "1 \<le> RETRY_COUNT cfg" and "list_all sleepable (waits cfg)"
    and "\<forall>i. calls w \<le> i \<longrightarrow> faults w i = Some Transient"
  shows "\<exists>w'. create_query_index cfg field_name order w = Some (Inl HTTPError, w')
              \<and> calls w' = calls w + nat (RETRY_COUNT cfg) \<and> docs w' = docs w
              \<and> slept w' = slept w @ waits cfg"
  unfolding create_query_index_def
  by (rule world_exhausts[OF assms]) (rule create_query_index_body_transient)

text \<open>An outcome of the first run that is not an HTTPError is the outcome of the call.\<close>

lemma retry_runs_body:
  "fst (f w) \<noteq> Inl HTTPError \<Longrightarrow> RETRY_COUNT cfg \<noteq> 0 \<Longrightarrow>
   retry cfg (\<lambda>w. Some (f w)) none w = Some (f w)"
  unfolding retry_def by (rule retry_internal_passes) simp_all

section \<open>The retry policy on the operations\<close>

lemma default_waits: "waits default_config = [1, 2, 4, 8, 16, 32, 64, 128, 256]"
  by (simp add: waits_def default_config_def eval_nat_numeral)

lemma failing_world_fails: "\<forall>i. calls failing_world \<le> i \<longrightarrow> faults failing_world i = Some Transient"
  by (simp add: failing_world_def every_call_def)

text \<open>
  C3 as stated fails on two settings that the module accepts. With \<^verbatim>\<open>RETRY_COUNT=0\<close> the
  decorator never runs the body: \<open>update\<close> on a store that fails every request returns
  \<^verbatim>\<open>None\<close> and raises nothing. With \<^verbatim>\<open>RETRY_DELAY=-1\<close> and ten attempts configured, the
  sleep after the first failed attempt raises ValueError, and that is what the caller
  gets, after one request.
\<close>

theorem retry_count_counterexample:
  "RETRY_COUNT no_retry = 0
   \<and> update no_retry (rex_saved, failing_world) = Some (Inr (), rex_saved, failing_world)
   \<and> RETRY_COUNT negative_delay = 10
   \<and> update negative_delay (rex_saved, failing_world) =
       Some (Inl ValueError, rex_saved, failing_world\<lparr>calls := 1, warnings := [''retrying'']\<rparr>)"
proof -
  have a: "update no_retry (rex_saved, failing_world) = Some (Inr (), rex_saved, failing_world)"
    by (simp add: update_def retry_self_def retry_internal_zero no_retry_def)
  have b: "update_body (rex_saved, failing_world) =
             (Inl HTTPError, rex_saved, failing_world\<lparr>calls := 1\<rparr>)"
    by (simp add: store_defs sample_defs)
  have "retry_internal (\<lambda>s. Some (update_body s)) () (apsnd retry_warning) sleep_self
          10 (- 1) 2 (rex_saved, failing_world) =
        Some (Inl ValueError, apsnd retry_warning (rex_saved, failing_world\<lparr>calls := 1\<rparr>))"
    by (rule retry_internal_sleep_raises)
       (simp_all add: b sleep_self_def time_sleep_def sleep_max_def del: update_body.simps)
  then have c: "update negative_delay (rex_saved, failing_world) =
       Some (Inl ValueError, rex_saved, failing_world\<lparr>calls := 1, warnings := [''retrying'']\<rparr>)"
    by (simp add: update_def retry_self_def negative_delay_def retry_warning_def
        logger_warning_def failing_world_def empty_world_def)
  show ?thesis using a c by (simp add: no_retry_def negative_delay_def)
qed

text \<open>
  C3, as the code has it, for \<open>update\<close>, \<open>delete\<close>, \<open>find\<close>, \<open>find_by\<close>, \<open>all\<close>,
  \<open>remove_all\<close> and \<open>create_query_index\<close>. Let \<open>RETRY_COUNT \<ge> 1\<close>, let every wait between
  two attempts be one that \<^verbatim>\<open>time.sleep\<close> accepts, and let every request from now on raise
  HTTPError. Then each of these operations, when its run sends a request at all, raises
  HTTPError to the caller after exactly \<open>RETRY_COUNT\<close> requests, one for each run of its
  body, having slept the waits in between and with the documents of the service as they
  were. A run sends a request when the id is a non-empty string and the client holds no
  document for it (\<open>update\<close>, \<open>delete\<close>, \<open>find\<close>), or holds one that is not empty
  (\<open>update\<close>) or has its id and a revision (\<open>delete\<close>); when the selector is not empty
  (\<open>find_by\<close>);
  and always for the other three. Whenever \<open>RETRY_COUNT\<close> is not 0 and the first run of
  a body ends in anything but an HTTPError, be it a result or an error of another class,
  that is how the decorated call ends: there is no second run.
\<close>

theorem retry_policy_exhaustion:
  "(1 \<le> RETRY_COUNT cfg \<and> list_all sleepable (waits cfg)
      \<and> (\<forall>i. calls w \<le> i \<longrightarrow> faults w i = Some Transient) \<longrightarrow>
      (id_attr self = PStr s \<and> s \<noteq> [] \<and> \<not> prefix ''_design/'' s
         \<and> map_of (cache w) s \<noteq> Some [] \<longrightarrow>
         (\<exists>w'. update cfg (self, w) = Some (Inl HTTPError, self, w')
               \<and> calls w' = calls w + nat (RETRY_COUNT cfg) \<and> docs w' = docs w
               \<and> slept w' = slept w @ waits cfg))
      \<and> (id_attr self = PStr s \<and> s \<noteq> [] \<and> \<not> prefix ''_design/'' s
         \<and> (map_of (cache w) s = None
            \<or> (\<exists>flds r. map_of (cache w) s = Some flds \<and> map_of flds ''_id'' = Some (PStr s)
                  \<and> map_of flds ''_rev'' = Some r \<and> truthy r)) \<longrightarrow>
         (\<exists>w'. delete cfg (self, w) = Some (Inl HTTPError, self, w')
               \<and> calls w' = calls w + nat (RETRY_COUNT cfg) \<and> docs w' = docs w
               \<and> slept w' = slept w @ waits cfg))
      \<and> (s \<noteq> [] \<and> map_of (cache w) s = None \<longrightarrow>
         (\<exists>w'. find_record cfg (PStr s) w = Some (Inl HTTPError, w')
               \<and> calls w' = calls w + nat (RETRY_COUNT cfg) \<and> docs w' = docs w
               \<and> slept w' = slept w @ waits cfg))
      \<and> (kwargs \<noteq> [] \<longrightarrow>
         (\<exists>w'. find_by cfg kwargs w = Some (Inl HTTPError, w')
               \<and> calls w' = calls w + nat (RETRY_COUNT cfg) \<and> docs w' = docs w
               \<and> slept w' = slept w @ waits cfg))
      \<and> (\<exists>w'. all_records cfg w = Some (Inl HTTPError, w')
               \<and> calls w' = calls w + nat (RETRY_COUNT cfg) \<and> docs w' = docs w
               \<and> slept w' = slept w @ waits cfg)
      \<and> (\<exists>w'. remove_all cfg w = Some (Inl HTTPError, w')
               \<and> calls w' = calls w + nat (RETRY_COUNT cfg) \<and> docs w' = docs w
               \<and> slept w' = slept w @ waits cfg)
      \<and> (\<exists>w'. create_query_index cfg field_name order w = Some (Inl HTTPError, w')
               \<and> calls w' = calls w + nat (RETRY_COUNT cfg) \<and> docs w' = docs w
               \<and> slept w' = slept w @ waits cfg))
   \<and> (RETRY_COUNT cfg \<noteq> 0 \<longrightarrow>
      (fst (update_body (self, w)) \<noteq> Inl HTTPError \<longrightarrow>
         update cfg (self, w) = Some (update_body (self, w)))
      \<and> (fst (delete_body (self, w)) \<noteq> Inl HTTPError \<longrightarrow>
         delete cfg (self, w) = Some (delete_body (self, w)))
      \<and> (fst (find_body k w) \<noteq> Inl HTTPError \<longrightarrow>
         find_record cfg k w = Some (find_body k w))
      \<and> (fst (find_by_body kwargs w) \<noteq> Inl HTTPError \<longrightarrow>
         find_by cfg kwargs w = Some (find_by_body kwargs w))
      \<and> (fst (all_body w) \<noteq> Inl HTTPError \<longrightarrow>
         all_records cfg w = Some (all_body w))
      \<and> (fst (remove_all_body w) \<noteq> Inl HTTPError \<longrightarrow>
         remove_all cfg w = Some (remove_all_body w))
      \<and> (fst (create_query_index_body field_name order w) \<noteq> Inl HTTPError \<longrightarrow>
         create_query_index cfg field_name order w =
           Some (create_query_index_body field_name order w)))"
proof (intro conjI impI)
  assume h: "1 \<le> RETRY_COUNT cfg \<and> list_all sleepable (waits cfg)
      \<and> (\<forall>i. calls w \<le> i \<longrightarrow> faults w i = Some Transient)"
  then have r: "1 \<le> RETRY_COUNT cfg" and o: "list_all sleepable (waits cfg)"
    and t: "\<forall>i. calls w \<le> i \<longrightarrow> faults w i = Some Transient" by simp_all
  {
    assume "id_attr self = PStr s \<and> s \<noteq> [] \<and> \<not> prefix ''_design/'' s
         \<and> map_of (cache w) s \<noteq> Some []"
    then have "id_attr self = PStr s" "s \<noteq> []" "map_of (cache w) s \<noteq> Some []" by simp_all
    with r o t show "\<exists>w'. update cfg (self, w) = Some (Inl HTTPError, self, w')
               \<and> calls w' = calls w + nat (RETRY_COUNT cfg) \<and> docs w' = docs w
               \<and> slept w' = slept w @ waits cfg"
      by (rule update_exhausts)
  }
  {
    assume "id_attr self = PStr s \<and> s \<noteq> [] \<and> \<not> prefix ''_design/'' s
         \<and> (map_of (cache w) s = None
            \<or> (\<exists>flds r. map_of (cache w) s = Some flds \<and> map_of flds ''_id'' = Some (PStr s)
                  \<and> map_of flds ''_rev'' = Some r \<and> truthy r))"
    then have "id_attr self = PStr s" "s \<noteq> []"
      "map_of (cache w) s = None
            \<or> (\<exists>flds r. map_of (cache w) s = Some flds \<and> map_of flds ''_rev'' = Some r
                  \<and> truthy r)" by auto
    with r o t show "\<exists>w'. delete cfg (self, w) = Some (Inl HTTPError, self, w')
               \<and> calls w' = calls w + nat (RETRY_COUNT cfg) \<and> docs w' = docs w
               \<and> slept w' = slept w @ waits cfg"
      by (rule delete_exhausts)
  }
  {
    assume "s \<noteq> [] \<and> map_of (cache w) s = None"
    then have "s \<noteq> []" "map_of (cache w) s = None" by simp_all
    with r o t show "\<exists>w'. find_record cfg (PStr s) w = Some (Inl HTTPError, w')
               \<and> calls w' = calls w + nat (RETRY_COUNT cfg) \<and> docs w' = docs w
               \<and> slept w' = slept w @ waits cfg"
      by (rule find_record_exhausts)
  }
  {
    assume "kwargs \<noteq> []"
    with r o t show "\<exists>w'. find_by cfg kwargs w = Some (Inl HTTPError, w')
               \<and> calls w' = calls w + nat (RETRY_COUNT cfg) \<and> docs w' = docs w
               \<and> slept w' = slept w @ waits cfg"
      by (rule find_by_exhausts)
  }
  from r o t show "\<exists>w'. all_records cfg w = Some (Inl HTTPError, w')
               \<and> calls w' = calls w + nat (RETRY_COUNT cfg) \<and> docs w' = docs w
               \<and> slept w' = slept w @ waits cfg"
    by (rule all_records_exhausts)
  from r o t show "\<exists>w'. remove_all cfg w = Some (Inl HTTPError, w')
               \<and> calls w' = calls w + nat (RETRY_COUNT cfg) \<and> docs w' = docs w
               \<and> slept w' = slept w @ waits cfg"
    by (rule remove_all_exhausts)
  from r o t show "\<exists>w'. create_query_index cfg field_name order w = Some (Inl HTTPError, w')
               \<and> calls w' = calls w + nat (RETRY_COUNT cfg) \<and> docs w' = docs w
               \<and> slept w' = slept w @ waits cfg"
    by (rule create_query_index_exhausts)
next
  assume "RETRY_COUNT cfg \<noteq> 0" "fst (update_body (self, w)) \<noteq> Inl HTTPError"
  then show "update cfg (self, w) = Some (update_body (self, w))"
    by (simp add: update_runs_body del: update_body.simps)
next
  assume "RETRY_COUNT cfg \<noteq> 0" "fst (delete_body (self, w)) \<noteq> Inl HTTPError"
  then show "delete cfg (self, w) = Some (delete_body (self, w))"
    by (simp add: delete_runs_body del: delete_body.simps)
next
  assume "RETRY_COUNT cfg \<noteq> 0" "fst (find_body k w) \<noteq> Inl HTTPError"
  then show "find_record cfg k w = Some (find_body k w)"
    by (simp add: find_runs_body)
next
  assume "RETRY_COUNT cfg \<noteq> 0" "fst (find_by_body kwargs w) \<noteq> Inl HTTPError"
  then show "find_by cfg kwargs w = Some (find_by_body kwargs w)"
    unfolding find_by_def by (simp add: retry_runs_body)
next
  assume "RETRY_COUNT cfg \<noteq> 0" "fst (all_body w) \<noteq> Inl HTTPError"
  then show "all_records cfg w = Some (all_body w)"
    unfolding all_records_def by (simp add: retry_runs_body)
next
  assume "RETRY_COUNT cfg \<noteq> 0" "fst (remove_all_body w) \<noteq> Inl HTTPError"
  then show "remove_all cfg w = Some (remove_all_body w)"
    unfolding remove_all_def by (simp add: retry_runs_body)
next
  assume "RETRY_COUNT cfg \<noteq> 0" "fst (create_query_index_body field_name order w) \<noteq> Inl HTTPError"
  then show "create_query_index cfg field_name order w =
           Some (create_query_index_body field_name order w)"
    unfolding create_query_index_def by (simp add: retry_runs_body)
qed

theorem retry_policy_exhaustion_witness:
  "1 \<le> RETRY_COUNT default_config
   \<and> list_all sleepable (waits default_config)
   \<and> faults failing_world (calls failing_world) = Some Transient
   \<and> (\<exists>w'. update default_config (rex_saved, failing_world) =
               Some (Inl HTTPError, rex_saved, w')
           \<and> calls w' = 10 \<and> docs w' = [] \<and> slept w' = [1, 2, 4, 8, 16, 32, 64, 128, 256])
   \<and> (\<exists>w'. delete default_config (rex_saved, failing_world) =
               Some (Inl HTTPError, rex_saved, w')
           \<and> calls w' = 10 \<and> docs w' = [] \<and> slept w' = [1, 2, 4, 8, 16, 32, 64, 128, 256])
   \<and> (\<exists>w'. find_record default_config (PStr ''p1'') failing_world = Some (Inl HTTPError, w')
           \<and> calls w' = 10 \<and> docs w' = [] \<and> slept w' = [1, 2, 4, 8, 16, 32, 64, 128, 256])
   \<and> (\<exists>w'. find_by default_config [(''name'', PStr ''Rex'')] failing_world =
               Some (Inl HTTPError, w')
           \<and> calls w' = 10 \<and> docs w' = [] \<and> slept w' = [1, 2, 4, 8, 16, 32, 64, 128, 256])
   \<and> (\<exists>w'. all_records default_config failing_world = Some (Inl HTTPError, w')
           \<and> calls w' = 10 \<and> docs w' = [] \<and> slept w' = [1, 2, 4, 8, 16, 32, 64, 128, 256])
   \<and> (\<exists>w'. remove_all default_config failing_world = Some (Inl HTTPError, w')
           \<and> calls w' = 10 \<and> docs w' = [] \<and> slept w' = [1, 2, 4, 8, 16, 32, 64, 128, 256])
   \<and> (\<exists>w'. create_query_index default_config ''name'' ''asc'' failing_world =
               Some (Inl HTTPError, w')
           \<and> calls w' = 10 \<and> docs w' = [] \<and> slept w' = [1, 2, 4, 8, 16, 32, 64, 128, 256])
   \<and> update default_config (rex_saved, unreachable_world) =
       Some (Inl ConnectionError, rex_saved, unreachable_world\<lparr>calls := 1\<rparr>)
   \<and> delete default_config (rex_saved, unreachable_world) =
       Some (Inl ConnectionError, rex_saved, unreachable_world\<lparr>calls := 1\<rparr>)
   \<and> find_record default_config (PStr ''p1'') unreachable_world =
       Some (Inl ConnectionError, unreachable_world\<lparr>calls := 1\<rparr>)
   \<and> all_records default_config unreachable_world =
       Some (Inl ConnectionError, unreachable_world\<lparr>calls := 1\<rparr>)
   \<and> remove_all default_config unreachable_world =
       Some (Inl ConnectionError, unreachable_world\<lparr>calls := 1\<rparr>)
   \<and> create_query_index default_config ''name'' ''asc'' unreachable_world =
       Some (Inl ConnectionError, unreachable_world\<lparr>calls := 1\<rparr>)
   \<and> find_by default_config [] failing_world = Some (Inl CloudantArgumentError, failing_world)
   \<and> find_record default_config (PStr ''p1'') held_failing_world =
       Some (Inr (Some \<lparr>id_attr = PStr ''p1'', name = PStr ''Max''\<rparr>), held_failing_world)"
proof -
  have r: "1 \<le> RETRY_COUNT default_config" "RETRY_COUNT default_config \<noteq> 0"
    "nat (RETRY_COUNT default_config) = 10"
    by (simp_all add: default_config_def)
  have o: "list_all sleepable (waits default_config)"
    by (simp add: default_waits sleepable_def sleep_max_def)
  have c: "calls failing_world = 0" "docs failing_world = []" "slept failing_world = []"
    "cache failing_world = []"
    by (simp_all add: failing_world_def empty_world_def)
  have u: "update_body (rex_saved, unreachable_world) =
             (Inl ConnectionError, rex_saved, unreachable_world\<lparr>calls := 1\<rparr>)"
    by (simp add: store_defs sample_defs)
  have u2: "delete_body (rex_saved, unreachable_world) =
             (Inl ConnectionError, rex_saved, unreachable_world\<lparr>calls := 1\<rparr>)"
    "find_body (PStr ''p1'') unreachable_world =
             (Inl ConnectionError, unreachable_world\<lparr>calls := 1\<rparr>)"
    "all_body unreachable_world = (Inl ConnectionError, unreachable_world\<lparr>calls := 1\<rparr>)"
    "remove_all_body unreachable_world =
             (Inl ConnectionError, unreachable_world\<lparr>calls := 1\<rparr>)"
    "create_query_index_body ''name'' ''asc'' unreachable_world =
             (Inl ConnectionError, unreachable_world\<lparr>calls := 1\<rparr>)"
    by (simp_all add: find_body_def all_body_def remove_all_body_def create_query_index_body_def
        store_defs sample_defs)
  have e: "find_by_body [] failing_world = (Inl CloudantArgumentError, failing_world)"
    by (simp add: find_by_body_def query_result_def)
  have f: "find_body (PStr ''p1'') held_failing_world =
             (Inr (Some \<lparr>id_attr = PStr ''p1'', name = PStr ''Max''\<rparr>), held_failing_world)"
    by (simp add: find_body_def store_defs sample_defs deserialize_def Base_def)
  show ?thesis
    using retry_policy_exhaustion [where cfg = default_config and w = failing_world
            and self = rex_saved and s = "''p1''" and kwargs = "[(''name'', PStr ''Rex'')]"
            and k = "PStr ''p1''" and field_name = "''name''" and order = "''asc''"]
          retry_policy_exhaustion [where cfg = default_config and w = unreachable_world
            and self = rex_saved and s = "''p1''" and kwargs = "[]"
            and k = "PStr ''p1''" and field_name = "''name''" and order = "''asc''"]
          retry_policy_exhaustion [where cfg = default_config and w = failing_world
            and self = rex_saved and s = "''p1''" and kwargs = "[]"
            and k = "PStr ''p1''" and field_name = "''name''" and order = "''asc''"]
          retry_policy_exhaustion [where cfg = default_config and w = held_failing_world
            and self = rex_saved and s = "''p1''" and kwargs = "[]"
            and k = "PStr ''p1''" and field_name = "''name''" and order = "''asc''"]
          r o c u u2 e f failing_world_fails
    by (simp add: default_waits rex_saved_def prefix_def del: update_body.simps delete_body.simps)
qed

section \<open>Create under a failing store\<close>

lemma create_body_transient:
  "name self \<noteq> PNone \<Longrightarrow> \<not> truthy (id_attr self) \<Longrightarrow> faults w (calls w) = Some Transient \<Longrightarrow>
   create_body (self, w) =
     (Inr (), self, logger_warning ''Create failed'' (w\<lparr>calls := Suc (calls w)\<rparr>))"
  by (simp add: create_document_def document_create_def request_def serialize_def Document_def
      dict_update_def dict_set_def Let_def)

text \<open>
  C2 does not hold of the code, on its default setting. The handler for HTTPError is
  inside the decorated body, so the decorator never sees a failure of
  \<^verbatim>\<open>create_document\<close>: with \<open>RETRY_COUNT = 10\<close> and a store that fails every request,
  \<open>create\<close> returns after one request and one warning of its own, and no retry took
  place. What the decorator does retry is a failure of \<^verbatim>\<open>document.exists()\<close>, after the
  document has been stored: on a service that fails the second and the fourth request,
  \<open>create\<close> with two attempts stores two documents for the one record, raises HTTPError to the
  caller and leaves the record without an id.
\<close>

theorem create_not_retried:
  "RETRY_COUNT default_config = 10
   \<and> create default_config (rex, failing_world) =
       Some (Inr (), rex, failing_world\<lparr>calls := 1, warnings := [''Create failed'']\<rparr>)
   \<and> create two_tries (rex, flaky_world) =
       Some (Inl HTTPError, rex,
             flaky_world\<lparr>calls := 4,
               docs := [(''doc-a'', [(''name'', PStr ''Rex''), (''_id'', PStr ''doc-a''),
                                     (''_rev'', PStr ''1-r'')]),
                        (''doc-aaa'', [(''name'', PStr ''Rex''), (''_id'', PStr ''doc-aaa''),
                                       (''_rev'', PStr ''1-rrr'')])],
               cache := [(''doc-a'', [(''name'', PStr ''Rex''), (''_id'', PStr ''doc-a''),
                                      (''_rev'', PStr ''1-r'')]),
                         (''doc-aaa'', [(''name'', PStr ''Rex''), (''_id'', PStr ''doc-aaa''),
                                        (''_rev'', PStr ''1-rrr'')])],
               warnings := [''retrying''], slept := [1]\<rparr>)
   \<and> id_attr rex = PNone"
proof -
  have b: "create_body (rex, failing_world) =
      (Inr (), rex, logger_warning ''Create failed'' (failing_world\<lparr>calls := Suc (calls failing_world)\<rparr>))"
    by (rule create_body_transient) (simp_all add: rex_def failing_world_def every_call_def)
  have "create default_config (rex, failing_world) = Some (create_body (rex, failing_world))"
    by (rule create_runs_body) (simp_all add: b default_config_def del: create_body.simps)
  then have cr: "create default_config (rex, failing_world) =
       Some (Inr (), rex, failing_world\<lparr>calls := 1, warnings := [''Create failed'']\<rparr>)"
    unfolding b by (simp add: logger_warning_def failing_world_def empty_world_def)
  let ?doc1 = "[(''name'', PStr ''Rex''), (''_id'', PStr ''doc-a''), (''_rev'', PStr ''1-r'')]"
  let ?doc3 = "[(''name'', PStr ''Rex''), (''_id'', PStr ''doc-aaa''), (''_rev'', PStr ''1-rrr'')]"
  let ?w1 = "flaky_world\<lparr>calls := 2, docs := [(''doc-a'', ?doc1)],
                          cache := [(''doc-a'', ?doc1)]\<rparr>"
  let ?w2 = "flaky_world\<lparr>calls := 2, docs := [(''doc-a'', ?doc1)],
                          cache := [(''doc-a'', ?doc1)], warnings := [''retrying''],
                          slept := [1]\<rparr>"
  let ?w3 = "flaky_world\<lparr>calls := 4, docs := [(''doc-a'', ?doc1), (''doc-aaa'', ?doc3)],
                          cache := [(''doc-a'', ?doc1), (''doc-aaa'', ?doc3)],
                          warnings := [''retrying''], slept := [1]\<rparr>"
  have r1: "create_body (rex, flaky_world) = (Inl HTTPError, rex, ?w1)"
    by (simp add: store_defs sample_defs serialize_def dict_set_def Let_def)
  have r2: "create_body (rex, ?w2) = (Inl HTTPError, rex, ?w3)"
    by (simp add: store_defs sample_defs serialize_def dict_set_def Let_def eval_nat_numeral)
  have s: "sleep_self 1 (apsnd retry_warning (rex, ?w1)) = Inr (rex, ?w2)"
    by (simp add: store_defs sample_defs)
  have "retry_internal (\<lambda>s. Some (create_body s)) () (apsnd retry_warning) sleep_self
          2 1 2 (rex, flaky_world) =
        retry_internal (\<lambda>s. Some (create_body s)) () (apsnd retry_warning) sleep_self
          (2 - 1) (1 * 2) 2 (rex, ?w2)"
    by (rule retry_internal_again[where ?s1.0 = "(rex, ?w1)"])
       (use s in \<open>simp_all add: r1 del: create_body.simps\<close>)
  also have "\<dots> = Some (Inl HTTPError, rex, ?w3)"
    using retry_internal_last[of "\<lambda>s. Some (create_body s)" "(rex, ?w2)" "(rex, ?w3)"
        "()" "apsnd retry_warning" sleep_self "1 * 2" 2]
    by (simp add: r2 del: create_body.simps)
  finally have fl: "create two_tries (rex, flaky_world) = Some (Inl HTTPError, rex, ?w3)"
    by (simp add: create_def retry_self_def two_tries_def)
  show ?thesis using cr fl by (simp add: default_config_def rex_def)
qed


end
